theory Spec2Isabelle
  imports Main
begin

section \<open>JavaScript strings and values\<close>

text \<open>
  The schema manager is one JavaScript module, \<^verbatim>\<open>sqlite3-schema-manager.js\<close>. Its
  strings are modelled as \<^typ>\<open>string\<close>, \<^verbatim>\<open>null\<close> as \<^term>\<open>None\<close>. The single-quote
  character is written \<open>apos\<close>, the line feed \<open>newline\<close>.
\<close>

abbreviation (input) apos :: char where
  "apos \<equiv> CHR 0x27"

abbreviation (input) newline :: char where
  "newline \<equiv> CHR 0x0A"

text \<open>
  \<^verbatim>\<open>s.replace(pat, rep)\<close> with a string pattern replaces the first occurrence of
  \<open>pat\<close> only (the replacement texts used by the module contain no \<^verbatim>\<open>$\<close>).
\<close>

fun replace_first :: "string \<Rightarrow> string \<Rightarrow> string \<Rightarrow> string" where
  "replace_first pat rep [] = (if pat = [] then rep else [])"
| "replace_first pat rep (c # cs) =
     (if take (length pat) (c # cs) = pat then rep @ drop (length pat) (c # cs)
      else c # replace_first pat rep cs)"

text \<open>What replacing every occurrence would be (a non-empty pattern): the reference the
  literal codec is compared with.\<close>

fun replace_every :: "char \<Rightarrow> string \<Rightarrow> string \<Rightarrow> string" where
  "replace_every p rep [] = []"
| "replace_every p rep (c # cs) =
     (if c = p then rep @ replace_every p rep cs else c # replace_every p rep cs)"

text \<open>\<^verbatim>\<open>Array.prototype.join\<close>.\<close>

fun join :: "string \<Rightarrow> string list \<Rightarrow> string" where
  "join sep [] = []"
| "join sep [x] = x"
| "join sep (x # y # ys) = x @ sep @ join sep (y # ys)"

text \<open>\<^verbatim>\<open>toLowerCase\<close> on the ASCII letters (no other character lowercases to
  one of \<^verbatim>\<open>n\<close>, \<^verbatim>\<open>u\<close>, \<^verbatim>\<open>l\<close>, the only use the module makes of it).\<close>

definition lower_char :: "char \<Rightarrow> char" where
  "lower_char c =
     (case map_of (zip ''ABCDEFGHIJKLMNOPQRSTUVWXYZ'' ''abcdefghijklmnopqrstuvwxyz'') c of
        None \<Rightarrow> c | Some l \<Rightarrow> l)"

definition toLowerCase :: "string \<Rightarrow> string" where
  "toLowerCase s = map lower_char s"

text \<open>\<^verbatim>\<open>String(n)\<close> for a non-negative integer (the clock value of
  \<^verbatim>\<open>new Date().getTime()\<close>).\<close>

function string_of_nat :: "nat \<Rightarrow> string" where
  "string_of_nat n =
     (if n < 10 then [''0123456789'' ! n]
      else string_of_nat (n div 10) @ [''0123456789'' ! (n mod 10)])"
  by pat_completeness auto
termination
  by (relation "measure id") auto

declare string_of_nat.simps [simp del]

section \<open>Errors\<close>

text \<open>
  Every \<^verbatim>\<open>throw\<close> of the module and every failure of a collaborator is a value.
  \<open>InvalidDefinition\<close> and \<open>InvalidCollaborator\<close> are the two argument checks at the head
  of the exported functions, \<open>MalformedLiteral\<close> is the throw of \<^verbatim>\<open>unquote\<close>,
  \<open>TypeError\<close> is raised by the JavaScript runtime itself (the \<^verbatim>\<open>in\<close> operator
  applied to \<^verbatim>\<open>null\<close>), and \<open>CollaboratorFailure\<close> is whatever \<^verbatim>\<open>select\<close> or
  \<^verbatim>\<open>execute\<close> raised.
\<close>

datatype error =
    InvalidDefinition
  | InvalidCollaborator
  | MalformedLiteral string
  | TypeError
  | CollaboratorFailure string

section \<open>Quoting and unquoting literals (lines 32-48, 85-88)\<close>

definition quote :: "string option \<Rightarrow> string" where
  "quote s =
     (case s of
        None \<Rightarrow> ''NULL''
      | Some v \<Rightarrow> [apos] @ replace_first [apos] [apos, apos] v @ [apos])"

definition unquote :: "string option \<Rightarrow> error + string option" where
  "unquote s =
     (case s of
        None \<Rightarrow> Inr None
      | Some v \<Rightarrow>
          if v = [] then Inr (Some [])
          else if length v < 2 \<or> hd v \<noteq> apos \<or> last v \<noteq> apos then Inl (MalformedLiteral v)
          else if length v = 2 then Inr (Some [])
          else Inr (Some (replace_first [apos, apos] [apos] (take (length v - 2) (drop 1 v)))))"

definition parseDefaultValue :: "string option \<Rightarrow> error + string option" where
  "parseDefaultValue s =
     (case s of
        None \<Rightarrow> Inr None
      | Some v \<Rightarrow> if toLowerCase v = ''null'' then Inr None else unquote (Some v))"

text \<open>The literal the sentence of the specification describes: every embedded single
  quote doubled.\<close>

definition quote_every :: "string \<Rightarrow> string" where
  "quote_every v = [apos] @ replace_every apos [apos, apos] v @ [apos]"

section \<open>The declared schema\<close>

text \<open>
  The caller's table declaration (the \<^verbatim>\<open>tbldef\<close> argument) with the optional fields
  already read through \<^verbatim>\<open>getArray\<close> and \<^verbatim>\<open>getObject\<close> (lines 20-26): a missing list
  is \<open>[]\<close>, a missing object is the empty object. The fields keep the source's names
  behind a prefix, since \<^verbatim>\<open>name\<close> and \<^verbatim>\<open>columns\<close> occur in several shapes. A foreign-key
  action that is absent is \<^term>\<open>None\<close> and is read through \<open>getFKAction\<close>. The values of
  the data model are strings or \<^verbatim>\<open>null\<close>, \<^verbatim>\<open>notnull\<close> is a boolean.

  The objects the caller passes as \<^verbatim>\<open>identifiers\<close>, \<^verbatim>\<open>other_values\<close> and as the
  entries of \<^verbatim>\<open>insert_on_create\<close> and \<^verbatim>\<open>delete_if_exists\<close> are plain objects: the
  list of their own properties in the order \<^verbatim>\<open>for (cn in obj)\<close> enumerates them, which
  for the names of this module is the order of insertion (names that are canonical
  array indices such as \<^verbatim>\<open>"7"\<close>, which JavaScript enumerates first, are outside the
  model). A declared column is an object with the properties \<^verbatim>\<open>name\<close>, \<^verbatim>\<open>type\<close>,
  \<^verbatim>\<open>notnull\<close>, \<^verbatim>\<open>dflt_value\<close>, a declared index one with \<^verbatim>\<open>name\<close>, \<^verbatim>\<open>origin\<close>,
  \<^verbatim>\<open>columns\<close>, in this order.
\<close>

type_synonym 'v properties = "(string \<times> 'v) list"

subsection \<open>The operator \<^verbatim>\<open>in\<close> and the prototype of an object\<close>

text \<open>
  \<^verbatim>\<open>k in obj\<close> holds for the own properties of \<^verbatim>\<open>obj\<close> and for every property of
  its prototype chain. An object written \<^verbatim>\<open>{}\<close> or \<^verbatim>\<open>{...}\<close> has the prototype
  \<^verbatim>\<open>Object.prototype\<close>, whose properties are the following; none of them is
  enumerable.
\<close>

definition object_prototype_names :: "string list" where
  "object_prototype_names =
     [''constructor'', ''__defineGetter__'', ''__defineSetter__'', ''hasOwnProperty'',
      ''__lookupGetter__'', ''__lookupSetter__'', ''isPrototypeOf'', ''propertyIsEnumerable'',
      ''toString'', ''valueOf'', ''__proto__'', ''toLocaleString'']"

text \<open>\<^verbatim>\<open>cn in obj\<close> for a plain object of the caller.\<close>

definition js_in :: "string \<Rightarrow> 'v properties \<Rightarrow> bool" where
  "js_in k obj = (k \<in> set (map fst obj) \<or> k \<in> set object_prototype_names)"

text \<open>
  The four dictionaries \<^verbatim>\<open>old_coldefs_by_name\<close>, \<^verbatim>\<open>new_coldefs_by_name\<close>,
  \<^verbatim>\<open>old_idxdefs_by_name\<close> and \<^verbatim>\<open>new_idxdefs_by_name\<close> start as \<^verbatim>\<open>{}\<close> and are filled
  by assignments \<^verbatim>\<open>obj[name] = value\<close>, every value a column or an index object. Such an
  assignment adds an own property, or replaces the value of the own property of that
  name, for every name but one: \<^verbatim>\<open>obj['__proto__'] = value\<close> runs the setter inherited
  from \<^verbatim>\<open>Object.prototype\<close>, which makes \<^verbatim>\<open>value\<close> the prototype of \<^verbatim>\<open>obj\<close> and
  adds no property. The properties of \<^verbatim>\<open>value\<close> are then inherited by \<^verbatim>\<open>obj\<close>, and
  they are enumerable. A dictionary is therefore its own properties in order of
  insertion (names that are canonical array indices again set aside), and the object
  that an assignment to \<^verbatim>\<open>__proto__\<close> has put in the place of
  \<^verbatim>\<open>Object.prototype\<close>, if any (that object's own prototype is
  \<^verbatim>\<open>Object.prototype\<close>).
\<close>

record 'v dictionary =
  own_properties :: "(string \<times> 'v) list"
  prototype :: "'v option"

definition empty_object :: "'v dictionary" where
  "empty_object = \<lparr>own_properties = [], prototype = None\<rparr>"

fun obj_replace :: "string \<Rightarrow> 'v \<Rightarrow> (string \<times> 'v) list \<Rightarrow> (string \<times> 'v) list" where
  "obj_replace k v [] = []"
| "obj_replace k v ((k', v') # rest) =
     (if k' = k then (k', v) # rest else (k', v') # obj_replace k v rest)"

text \<open>\<^verbatim>\<open>obj[k] = v\<close>.\<close>

definition obj_set :: "string \<Rightarrow> 'v \<Rightarrow> 'v dictionary \<Rightarrow> 'v dictionary" where
  "obj_set k v obj =
     (if k = ''__proto__'' then obj\<lparr>prototype := Some v\<rparr>
      else if k \<in> set (map fst (own_properties obj))
      then obj\<lparr>own_properties := obj_replace k v (own_properties obj)\<rparr>
      else obj\<lparr>own_properties := own_properties obj @ [(k, v)]\<rparr>)"

text \<open>
  What a property of a dictionary can hold: one of the objects assigned to it
  (\<open>Entry\<close>), or, for a property inherited from an object put in the place of the
  prototype, the value of that object's field, which is not an object of the kind
  (\<open>Primitive\<close>): a string, a boolean, \<^verbatim>\<open>null\<close> or an array of strings. A read
  \<^verbatim>\<open>obj[k]\<close> can moreover find a member of \<^verbatim>\<open>Object.prototype\<close> (\<open>Builtin\<close>): a
  function, or \<^verbatim>\<open>Object.prototype\<close> itself for \<^verbatim>\<open>__proto__\<close>.
\<close>

datatype jsprim = PString string | PBoolean bool | PNull | PStrings "string list"

datatype 'v propval = Entry 'v | Primitive jsprim

datatype 'v lookup = Found "'v propval" | Builtin

text \<open>
  \<open>props\<close> gives the enumerable properties of an object of the kind the dictionary
  holds. \<^verbatim>\<open>for (k in obj)\<close> enumerates the own properties, then the properties
  inherited from the prototype that no own property hides; \<open>obj_entries\<close> pairs each
  name with \<^verbatim>\<open>obj[k]\<close>. \<open>obj_get\<close> is \<^verbatim>\<open>obj[k]\<close> for a name that is \<^verbatim>\<open>in obj\<close>
  and \<^term>\<open>None\<close> for a name that is not, so that \<open>obj_in\<close> is \<^verbatim>\<open>k in obj\<close>:
  an own property, else a property of the object in the place of the prototype, else
  a member of \<^verbatim>\<open>Object.prototype\<close>, where \<^verbatim>\<open>obj['__proto__']\<close> reads the prototype.
\<close>

definition inherited_fields :: "('v \<Rightarrow> (string \<times> jsprim) list) \<Rightarrow> 'v dictionary
    \<Rightarrow> (string \<times> jsprim) list" where
  "inherited_fields props obj = (case prototype obj of None \<Rightarrow> [] | Some p \<Rightarrow> props p)"

definition obj_keys :: "('v \<Rightarrow> (string \<times> jsprim) list) \<Rightarrow> 'v dictionary \<Rightarrow> string list" where
  "obj_keys props obj =
     map fst (own_properties obj)
       @ filter (\<lambda>f. f \<notin> set (map fst (own_properties obj)))
           (map fst (inherited_fields props obj))"

definition obj_entries :: "('v \<Rightarrow> (string \<times> jsprim) list) \<Rightarrow> 'v dictionary
    \<Rightarrow> (string \<times> 'v propval) list" where
  "obj_entries props obj =
     map (\<lambda>(k, v). (k, Entry v)) (own_properties obj)
       @ map (\<lambda>(f, x). (f, Primitive x))
           (filter (\<lambda>(f, x). f \<notin> set (map fst (own_properties obj)))
              (inherited_fields props obj))"

definition obj_get :: "('v \<Rightarrow> (string \<times> jsprim) list) \<Rightarrow> string \<Rightarrow> 'v dictionary
    \<Rightarrow> 'v lookup option" where
  "obj_get props k obj =
     (case map_of (own_properties obj) k of
        Some v \<Rightarrow> Some (Found (Entry v))
      | None \<Rightarrow>
          (case map_of (inherited_fields props obj) k of
             Some x \<Rightarrow> Some (Found (Primitive x))
           | None \<Rightarrow>
               if k = ''__proto__''
               then (case prototype obj of
                       Some p \<Rightarrow> Some (Found (Entry p))
                     | None \<Rightarrow> Some Builtin)
               else if k \<in> set object_prototype_names then Some Builtin
               else None))"

definition obj_in :: "('v \<Rightarrow> (string \<times> jsprim) list) \<Rightarrow> string \<Rightarrow> 'v dictionary \<Rightarrow> bool" where
  "obj_in props k obj = (obj_get props k obj \<noteq> None)"

text \<open>
  Reading a property of \<^verbatim>\<open>null\<close> throws a \<^verbatim>\<open>TypeError\<close>. A string, a boolean and
  an array have none of the properties \<^verbatim>\<open>name\<close>, \<^verbatim>\<open>type\<close>, \<^verbatim>\<open>notnull\<close>,
  \<^verbatim>\<open>dflt_value\<close>, \<^verbatim>\<open>origin\<close>, \<^verbatim>\<open>columns\<close>: reading one gives \<^verbatim>\<open>undefined\<close>. So does
  reading one of the last five from a member of \<^verbatim>\<open>Object.prototype\<close> (the module reads
  \<^verbatim>\<open>name\<close> from enumerated values only, which are never such a member). A read that
  can give \<^verbatim>\<open>undefined\<close> has an \<open>option\<close> result, \<^term>\<open>None\<close> for \<^verbatim>\<open>undefined\<close>.
\<close>

definition is_null :: "'v lookup \<Rightarrow> bool" where
  "is_null v = (case v of Found (Primitive PNull) \<Rightarrow> True | _ \<Rightarrow> False)"

record coldef =
  col_name :: string
  col_type :: string
  col_notnull :: bool
  col_dflt_value :: "string option"

record idxdef =
  idx_name :: string
  idx_origin :: string
  idx_columns :: "string list"

record reference =
  ref_from :: string
  ref_to :: string

record fkdef =
  fk_table :: string
  fk_references :: "reference list"
  fk_on_update :: "string option"
  fk_on_delete :: "string option"

record seed =
  identifiers :: "string option properties"
  other_values :: "string option properties"

record tbldef =
  tbl_name :: string
  tbl_columns :: "coldef list"
  tbl_indexes :: "idxdef list"
  tbl_foreign_keys :: "fkdef list"
  insert_on_create :: "string option properties list"
  insert_if_not_exists :: "seed list"
  update_if_exists :: "seed list"
  delete_if_exists :: "string option properties list"

definition getFKAction :: "string option \<Rightarrow> string" where
  "getFKAction a = (case a of None \<Rightarrow> ''NO ACTION'' | Some s \<Rightarrow> s)"

subsection \<open>Columns and indexes as values of a dictionary\<close>

definition coldef_fields :: "coldef \<Rightarrow> (string \<times> jsprim) list" where
  "coldef_fields coldef =
     [(''name'', PString (col_name coldef)), (''type'', PString (col_type coldef)),
      (''notnull'', PBoolean (col_notnull coldef)),
      (''dflt_value'', case col_dflt_value coldef of None \<Rightarrow> PNull | Some v \<Rightarrow> PString v)]"

definition idxdef_fields :: "idxdef \<Rightarrow> (string \<times> jsprim) list" where
  "idxdef_fields idxdef =
     [(''name'', PString (idx_name idxdef)), (''origin'', PString (idx_origin idxdef)),
      (''columns'', PStrings (idx_columns idxdef))]"

text \<open>\<^verbatim>\<open>v.type\<close>, \<^verbatim>\<open>v.notnull\<close> and \<^verbatim>\<open>v.dflt_value\<close> of a value that is not
  \<^verbatim>\<open>null\<close>. The default is read for the comparison \<^verbatim>\<open>!=\<close> only, under which
  \<^verbatim>\<open>undefined\<close> and \<^verbatim>\<open>null\<close> are equal and differ from every string: both are
  \<^term>\<open>None\<close>.\<close>

definition type_of :: "coldef lookup \<Rightarrow> string option" where
  "type_of v = (case v of Found (Entry coldef) \<Rightarrow> Some (col_type coldef) | _ \<Rightarrow> None)"

definition notnull_of :: "coldef lookup \<Rightarrow> bool option" where
  "notnull_of v = (case v of Found (Entry coldef) \<Rightarrow> Some (col_notnull coldef) | _ \<Rightarrow> None)"

definition dflt_value_of :: "coldef lookup \<Rightarrow> string option" where
  "dflt_value_of v = (case v of Found (Entry coldef) \<Rightarrow> col_dflt_value coldef | _ \<Rightarrow> None)"

text \<open>\<^verbatim>\<open>v.origin\<close> of a value that is not \<^verbatim>\<open>null\<close>, and \<^verbatim>\<open>getArray(v, 'columns')\<close>
  (line 21): \<^verbatim>\<open>'columns' in v\<close> throws a \<^verbatim>\<open>TypeError\<close> when \<^verbatim>\<open>v\<close> is not an object,
  and is false of an array and of the members of \<^verbatim>\<open>Object.prototype\<close>.\<close>

definition origin_of :: "idxdef lookup \<Rightarrow> string option" where
  "origin_of v = (case v of Found (Entry idxdef) \<Rightarrow> Some (idx_origin idxdef) | _ \<Rightarrow> None)"

definition getArray_columns :: "idxdef lookup \<Rightarrow> error + string list" where
  "getArray_columns v =
     (case v of
        Found (Entry idxdef) \<Rightarrow> Inr (idx_columns idxdef)
      | Found (Primitive (PStrings xs)) \<Rightarrow> Inr []
      | Found (Primitive x) \<Rightarrow> Inl TypeError
      | Builtin \<Rightarrow> Inr [])"

section \<open>Comparing definitions (lines 50-83)\<close>

definition doIndexesMatch :: "idxdef \<Rightarrow> idxdef \<Rightarrow> bool" where
  "doIndexesMatch idxdef1 idxdef2 =
     (if idx_origin idxdef1 \<noteq> idx_origin idxdef2 then False
      else if length (idx_columns idxdef1) \<noteq> length (idx_columns idxdef2) then False
      else list_all2 (\<lambda>c1 c2. c1 = c2) (idx_columns idxdef1) (idx_columns idxdef2))"

text \<open>\<^verbatim>\<open>doIndexesMatch\<close> on the values read from two dictionaries (line 437).\<close>

definition doIndexesMatch_values :: "idxdef lookup \<Rightarrow> idxdef lookup \<Rightarrow> error + bool" where
  "doIndexesMatch_values idxdef1 idxdef2 =
     (if is_null idxdef1 \<or> is_null idxdef2 then Inl TypeError
      else if origin_of idxdef1 \<noteq> origin_of idxdef2 then Inr False
      else (case getArray_columns idxdef1 of
              Inl e \<Rightarrow> Inl e
            | Inr columns1 \<Rightarrow>
                (case getArray_columns idxdef2 of
                   Inl e \<Rightarrow> Inl e
                 | Inr columns2 \<Rightarrow>
                     Inr (if length columns1 \<noteq> length columns2 then False
                          else list_all2 (\<lambda>c1 c2. c1 = c2) columns1 columns2))))"

definition doForeignKeysMatch :: "fkdef \<Rightarrow> fkdef \<Rightarrow> bool" where
  "doForeignKeysMatch fkdef1 fkdef2 =
     (if fk_table fkdef1 \<noteq> fk_table fkdef2
         \<or> getFKAction (fk_on_update fkdef1) \<noteq> getFKAction (fk_on_update fkdef2)
         \<or> getFKAction (fk_on_delete fkdef1) \<noteq> getFKAction (fk_on_delete fkdef2) then False
      else if length (fk_references fkdef1) \<noteq> length (fk_references fkdef2) then False
      else list_all2 (\<lambda>r1 r2. \<not> (ref_from r1 \<noteq> ref_from r2 \<or> ref_to r1 \<noteq> ref_to r2))
             (fk_references fkdef1) (fk_references fkdef2))"

section \<open>Generating SQL text (lines 90-184)\<close>

definition columnDefinitionToSQL :: "coldef \<Rightarrow> string" where
  "columnDefinitionToSQL coldef =
     col_name coldef @ '' '' @ col_type coldef
       @ (if col_notnull coldef then '' NOT NULL'' else '' NULL'') @ '' DEFAULT ''
       @ (case col_dflt_value coldef of None \<Rightarrow> ''NULL'' | Some v \<Rightarrow> quote (Some v))"

definition indexDefinitionToSQL :: "idxdef \<Rightarrow> string \<Rightarrow> string" where
  "indexDefinitionToSQL idxdef tableName =
     (if idx_origin idxdef = ''c'' \<or> idx_origin idxdef = ''u''
      then ''create '' @ (if idx_origin idxdef = ''u'' then ''unique '' else []) @ '' index ''
             @ idx_name idxdef @ '' on '' @ tableName
             @ '' ('' @ join '', '' (idx_columns idxdef) @ '')''
      else [])"

text \<open>
  The same two functions on a value enumerated from a dictionary (lines 301, 439 and
  445). Of a string, a boolean or an array every property read is \<^verbatim>\<open>undefined\<close>:
  the column text is made of \<^verbatim>\<open>undefined\<close> rendered by the concatenation and by
  \<^verbatim>\<open>String\<close>, and the index text is empty.
\<close>

definition columnDefinitionToSQL_value :: "coldef propval \<Rightarrow> error + string" where
  "columnDefinitionToSQL_value v =
     (case v of
        Entry coldef \<Rightarrow> Inr (columnDefinitionToSQL coldef)
      | Primitive PNull \<Rightarrow> Inl TypeError
      | Primitive x \<Rightarrow>
          Inr (''undefined'' @ '' '' @ ''undefined'' @ '' NULL'' @ '' DEFAULT ''
                 @ quote (Some ''undefined'')))"

definition indexDefinitionToSQL_value :: "idxdef propval \<Rightarrow> string \<Rightarrow> error + string" where
  "indexDefinitionToSQL_value v tableName =
     (case v of
        Entry idxdef \<Rightarrow> Inr (indexDefinitionToSQL idxdef tableName)
      | Primitive PNull \<Rightarrow> Inl TypeError
      | Primitive x \<Rightarrow> Inr [])"

text \<open>The \<^verbatim>\<open>forEach\<close> of \<^verbatim>\<open>foreignKeyDefinitionToSQL\<close>: the state is
  \<open>(froms, tos, sep)\<close>.\<close>

fun fk_references_loop :: "reference list \<Rightarrow> string \<times> string \<times> string \<Rightarrow> string \<times> string \<times> string" where
  "fk_references_loop [] acc = acc"
| "fk_references_loop (r # rs) (froms, tos, sep) =
     fk_references_loop rs
       (froms @ sep @ ref_from r, tos @ sep @ ref_to r, if sep = [] then '', '' else sep)"

definition foreignKeyDefinitionToSQL :: "fkdef \<Rightarrow> string" where
  "foreignKeyDefinitionToSQL fkdef =
     (case fk_references_loop (fk_references fkdef) ([], [], []) of
        (froms, tos, sep) \<Rightarrow>
          ''foreign key ('' @ froms @ '') references '' @ fk_table fkdef @ ''('' @ tos @ '')''
            @ '' on update '' @ getFKAction (fk_on_update fkdef)
            @ '' on delete '' @ getFKAction (fk_on_delete fkdef))"

text \<open>The first loop of \<^verbatim>\<open>getCreateTableSQL\<close>: the state is \<open>(pk, singlePKColumn)\<close>.
  A later primary-key entry replaces \<open>pk\<close>; \<open>singlePKColumn\<close> changes only at an entry
  with exactly one column.\<close>

fun find_pk_loop :: "idxdef list \<Rightarrow> idxdef option \<times> string option \<Rightarrow> idxdef option \<times> string option" where
  "find_pk_loop [] acc = acc"
| "find_pk_loop (idxdef # rest) (pk, singlePKColumn) =
     (if idx_origin idxdef = ''pk''
      then find_pk_loop rest
             (Some idxdef,
              case idx_columns idxdef of [c] \<Rightarrow> Some c | _ \<Rightarrow> singlePKColumn)
      else find_pk_loop rest (pk, singlePKColumn))"

text \<open>The column loop: the state is \<open>(sql, sep, pk)\<close>; the separator is a comma and a
  line feed.\<close>

fun create_columns_loop :: "string option \<Rightarrow> coldef list \<Rightarrow> string \<times> string \<times> idxdef option
    \<Rightarrow> string \<times> string \<times> idxdef option" where
  "create_columns_loop singlePKColumn [] acc = acc"
| "create_columns_loop singlePKColumn (coldef # rest) (sql, sep, pk) =
     (if singlePKColumn \<noteq> None \<and> Some (col_name coldef) = singlePKColumn
         \<and> col_type coldef = ''INTEGER''
      then create_columns_loop singlePKColumn rest
             (sql @ sep @ '' '' @ col_name coldef @ '' INTEGER PRIMARY KEY'',
              if sep = [] then [CHR '','', newline] else sep, None)
      else create_columns_loop singlePKColumn rest
             (sql @ sep @ '' '' @ columnDefinitionToSQL coldef,
              if sep = [] then [CHR '','', newline] else sep, pk))"

fun create_fks_loop :: "fkdef list \<Rightarrow> string \<times> string \<Rightarrow> string \<times> string" where
  "create_fks_loop [] acc = acc"
| "create_fks_loop (fkdef # rest) (sql, sep) =
     create_fks_loop rest
       (sql @ sep @ '' '' @ foreignKeyDefinitionToSQL fkdef,
        if sep = [] then [CHR '','', newline] else sep)"

definition getCreateTableSQL :: "tbldef \<Rightarrow> string \<Rightarrow> string" where
  "getCreateTableSQL tbldef tableName =
     (case find_pk_loop (tbl_indexes tbldef) (None, None) of
        (pk0, singlePKColumn) \<Rightarrow>
          (case create_columns_loop singlePKColumn (tbl_columns tbldef)
                  (''create table '' @ tableName @ '' ('', [], pk0) of
             (sql1, sep1, pk) \<Rightarrow>
               (case (case pk of
                        None \<Rightarrow> (sql1, sep1)
                      | Some p \<Rightarrow>
                          (sql1 @ sep1 @ '' primary key ('' @ join '', '' (idx_columns p) @ '')'',
                           if sep1 = [] then [CHR '','', newline] else sep1)) of
                  (sql2, sep2) \<Rightarrow>
                    (case create_fks_loop (tbl_foreign_keys tbldef) (sql2, sep2) of
                       (sql3, sep3) \<Rightarrow> sql3 @ [newline] @ '')''))))"

fun getCreateIndexSQLs_loop :: "string \<Rightarrow> idxdef list \<Rightarrow> string list \<Rightarrow> string list" where
  "getCreateIndexSQLs_loop tableName [] isqls = isqls"
| "getCreateIndexSQLs_loop tableName (idxdef # rest) isqls =
     (if idx_origin idxdef = ''c'' \<or> idx_origin idxdef = ''u''
      then (let isql = indexDefinitionToSQL idxdef tableName
            in getCreateIndexSQLs_loop tableName rest
                 (if isql \<noteq> [] then isqls @ [isql] else isqls))
      else getCreateIndexSQLs_loop tableName rest isqls)"

definition getCreateIndexSQLs :: "tbldef \<Rightarrow> string \<Rightarrow> string list" where
  "getCreateIndexSQLs tbldef tableName = getCreateIndexSQLs_loop tableName (tbl_indexes tbldef) []"

section \<open>The collaborators\<close>

text \<open>
  \<^verbatim>\<open>select\<close> and \<^verbatim>\<open>execute\<close> are functions of the caller. A run threads a
  world: the caller's database, of any type \<open>'db\<close>, and the calls issued so far, in
  order. A collaborator answers from the database as it stands at the call;
  \<^verbatim>\<open>execute\<close> may change it. A call that fails is recorded (it was issued) and
  the run stops there with the collaborator's error, as an exception thrown through
  every \<^verbatim>\<open>await\<close> does. The \<^verbatim>\<open>debug\<close> flag only prints and is left out.
\<close>

datatype call = Select string | Execute string

record 'db world =
  store :: 'db
  issued :: "call list"

type_synonym ('a, 'db) io = "'db world \<Rightarrow> (error + 'a) \<times> 'db world"

definition io_return :: "'a \<Rightarrow> ('a, 'db) io" where
  "io_return x w = (Inr x, w)"

definition io_throw :: "error \<Rightarrow> ('a, 'db) io" where
  "io_throw e w = (Inl e, w)"

definition io_bind :: "('a, 'db) io \<Rightarrow> ('a \<Rightarrow> ('b, 'db) io) \<Rightarrow> ('b, 'db) io" where
  "io_bind m f w = (case m w of (Inl e, w') \<Rightarrow> (Inl e, w') | (Inr x, w') \<Rightarrow> f x w')"

text \<open>
  The rows \<^verbatim>\<open>select\<close> returns have the shape of the pragma asked, and each place
  of the source that calls \<^verbatim>\<open>select\<close> reads fixed fields of them. The collaborator is
  therefore given by its five views, one for each pragma, each a function of the SQL
  text it is called with. The fields are those the source reads: \<^verbatim>\<open>notnull\<close> and
  \<^verbatim>\<open>unique\<close> are numbers (\<^verbatim>\<open>unique\<close> may be absent), \<^verbatim>\<open>pk\<close> is 0 or the 1-based
  position in the primary key, \<^verbatim>\<open>dflt_value\<close> is a text or \<^verbatim>\<open>null\<close>.
\<close>

record table_info_row =
  ti_name :: string
  ti_type :: string
  ti_notnull :: int
  ti_dflt_value :: "string option"
  ti_pk :: nat

record index_list_row =
  il_name :: string
  il_origin :: string
  il_unique :: "int option"

record foreign_key_row =
  fl_id :: nat
  fl_table :: string
  fl_from :: string
  fl_to :: string
  fl_on_update :: string
  fl_on_delete :: string

record 'db select_views =
  foreign_keys_rows :: "string \<Rightarrow> 'db \<Rightarrow> error + int list"
  table_info_rows :: "string \<Rightarrow> 'db \<Rightarrow> error + table_info_row list"
  index_list_rows :: "string \<Rightarrow> 'db \<Rightarrow> error + index_list_row list"
  index_info_rows :: "string \<Rightarrow> 'db \<Rightarrow> error + string list"
  foreign_key_list_rows :: "string \<Rightarrow> 'db \<Rightarrow> error + foreign_key_row list"

type_synonym 'db execute_fn = "string \<Rightarrow> 'db \<Rightarrow> error + 'db"

definition await_select :: "(string \<Rightarrow> 'db \<Rightarrow> error + 'r) \<Rightarrow> string \<Rightarrow> ('r, 'db) io" where
  "await_select view sql w =
     (case view sql (store w) of
        Inl e \<Rightarrow> (Inl e, w\<lparr>issued := issued w @ [Select sql]\<rparr>)
      | Inr rows \<Rightarrow> (Inr rows, w\<lparr>issued := issued w @ [Select sql]\<rparr>))"

definition await_execute :: "'db execute_fn \<Rightarrow> string \<Rightarrow> (unit, 'db) io" where
  "await_execute execute sql w =
     (case execute sql (store w) of
        Inl e \<Rightarrow> (Inl e, w\<lparr>issued := issued w @ [Execute sql]\<rparr>)
      | Inr d \<Rightarrow> (Inr (), w\<lparr>store := d, issued := issued w @ [Execute sql]\<rparr>))"

section \<open>Issuing a list of statements (lines 190-196)\<close>

text \<open>
  \<^verbatim>\<open>for (var cmdi = 0; cmdi < cmdlist.length; cmdi++) { var sql = cmdlist[cmdi++]; ... }\<close>:
  the index is incremented when the statement is read and again by the loop header.
\<close>

function executeSQLCommands_from :: "'db execute_fn \<Rightarrow> string list \<Rightarrow> nat \<Rightarrow> (unit, 'db) io" where
  "executeSQLCommands_from execute cmdlist cmdi w =
     (if cmdi < length cmdlist
      then (case await_execute execute (cmdlist ! cmdi) w of
              (Inl e, w') \<Rightarrow> (Inl e, w')
            | (Inr u, w') \<Rightarrow> executeSQLCommands_from execute cmdlist ((cmdi + 1) + 1) w')
      else (Inr (), w))"
  by pat_completeness auto
termination
  by (relation "measure (\<lambda>(execute, cmdlist, cmdi, w). length cmdlist - cmdi)") auto

declare executeSQLCommands_from.simps [simp del]

definition executeSQLCommands :: "'db execute_fn \<Rightarrow> string list \<Rightarrow> (unit, 'db) io" where
  "executeSQLCommands execute cmdlist = executeSQLCommands_from execute cmdlist 0"

section \<open>Seed directives (lines 203-213, 465-536)\<close>

text \<open>The \<^verbatim>\<open>for (cn in ioc)\<close> of \<^verbatim>\<open>insert_on_create\<close>: the state is
  \<open>(sql, sqlend, sep)\<close>.\<close>

fun insert_on_create_loop :: "string option properties \<Rightarrow> string \<times> string \<times> string \<Rightarrow> string \<times> string \<times> string" where
  "insert_on_create_loop [] acc = acc"
| "insert_on_create_loop ((cn, v) # rest) (sql, sqlend, sep) =
     insert_on_create_loop rest
       (sql @ sep @ cn, sqlend @ sep @ quote v, if sep = [] then '', '' else sep)"

definition insert_on_create_sql :: "tbldef \<Rightarrow> string option properties \<Rightarrow> string" where
  "insert_on_create_sql tbldef ioc =
     (case insert_on_create_loop ioc
             (''insert into '' @ tbl_name tbldef @ '' ('', '') values ('', []) of
        (sql, sqlend, sep) \<Rightarrow> sql @ sqlend @ '')'')"

text \<open>\<^verbatim>\<open>insert_if_not_exists\<close>, the loop over \<^verbatim>\<open>identifiers\<close>: the state is
  \<open>(sqlpart1, sqlpart2, sqlpart3, sepcomma, sepand)\<close>.\<close>

fun iine_identifiers_loop :: "string option properties
    \<Rightarrow> string \<times> string \<times> string \<times> string \<times> string
    \<Rightarrow> string \<times> string \<times> string \<times> string \<times> string" where
  "iine_identifiers_loop [] acc = acc"
| "iine_identifiers_loop ((cn, v) # rest) (sqlpart1, sqlpart2, sqlpart3, sepcomma, sepand) =
     (let qv = quote v
      in iine_identifiers_loop rest
           (sqlpart1 @ sepcomma @ cn, sqlpart2 @ sepcomma @ qv,
            sqlpart3 @ sepand @ cn @ '' = '' @ qv,
            if sepcomma = [] then '', '' else sepcomma,
            if sepand = [] then '' and '' else sepand))"

text \<open>The loop over \<^verbatim>\<open>other_values\<close>: the state is \<open>(sqlpart1, sqlpart2, sepcomma)\<close>
  (\<open>sepand\<close> is assigned there and never read again).\<close>

fun iine_other_values_loop :: "string option properties \<Rightarrow> string option properties
    \<Rightarrow> string \<times> string \<times> string \<Rightarrow> string \<times> string \<times> string" where
  "iine_other_values_loop ids [] acc = acc"
| "iine_other_values_loop ids ((cn, v) # rest) (sqlpart1, sqlpart2, sepcomma) =
     (if js_in cn ids then iine_other_values_loop ids rest (sqlpart1, sqlpart2, sepcomma)
      else (let qv = quote v
            in iine_other_values_loop ids rest
                 (sqlpart1 @ sepcomma @ cn, sqlpart2 @ sepcomma @ qv,
                  if sepcomma = [] then '', '' else sepcomma)))"

text \<open>One entry: \<^term>\<open>None\<close> is the early \<^verbatim>\<open>return\<close>, nothing pushed.\<close>

definition insert_if_not_exists_sql :: "tbldef \<Rightarrow> seed \<Rightarrow> string option" where
  "insert_if_not_exists_sql tbldef entry =
     (case iine_identifiers_loop (identifiers entry)
             (''insert into '' @ tbl_name tbldef @ '' ('', '') select '',
              '' where not exists (select 1 from '' @ tbl_name tbldef @ '' where '', [], []) of
        (sqlpart1, sqlpart2, sqlpart3, sepcomma, sepand) \<Rightarrow>
          if sepcomma = [] then None
          else (case iine_other_values_loop (identifiers entry) (other_values entry)
                        (sqlpart1, sqlpart2, sepcomma) of
                  (sqlpart1', sqlpart2', sepcomma') \<Rightarrow>
                    Some (sqlpart1' @ sqlpart2' @ sqlpart3 @ '')'')))"

text \<open>\<^verbatim>\<open>update_if_exists\<close> and \<^verbatim>\<open>delete_if_exists\<close>: the loops
  \<^verbatim>\<open>sql += sep+cn+' = '+quote(v)\<close>, with \<open>(sql, sep)\<close> as state and the separator to
  switch to.\<close>

fun assignments_loop :: "string \<Rightarrow> string option properties \<Rightarrow> string \<times> string \<Rightarrow> string \<times> string" where
  "assignments_loop nextsep [] acc = acc"
| "assignments_loop nextsep ((cn, v) # rest) (sql, sep) =
     assignments_loop nextsep rest
       (sql @ sep @ cn @ '' = '' @ quote v, if sep = [] then nextsep else sep)"

definition update_if_exists_sql :: "tbldef \<Rightarrow> seed \<Rightarrow> string option" where
  "update_if_exists_sql tbldef entry =
     (case assignments_loop '', '' (other_values entry)
             (''update '' @ tbl_name tbldef @ '' set '', []) of
        (sql, sep) \<Rightarrow>
          if sep = [] then None
          else (case assignments_loop '' and '' (identifiers entry) (sql @ '' where '', []) of
                  (sql', sep') \<Rightarrow> if sep' = [] then None else Some sql'))"

definition delete_if_exists_sql :: "tbldef \<Rightarrow> string option properties \<Rightarrow> string option" where
  "delete_if_exists_sql tbldef entry =
     (case assignments_loop '' and '' entry (''delete from '' @ tbl_name tbldef @ '' where '', []) of
        (sql, sep) \<Rightarrow> if sep = [] then None else Some sql)"

definition handleDataTransformations :: "'db execute_fn \<Rightarrow> tbldef \<Rightarrow> (unit, 'db) io" where
  "handleDataTransformations execute tbldef =
     io_bind (executeSQLCommands execute
                (List.map_filter (insert_if_not_exists_sql tbldef) (insert_if_not_exists tbldef)))
       (\<lambda>_. io_bind (executeSQLCommands execute
                (List.map_filter (update_if_exists_sql tbldef) (update_if_exists tbldef)))
       (\<lambda>_. executeSQLCommands execute
                (List.map_filter (delete_if_exists_sql tbldef) (delete_if_exists tbldef))))"

section \<open>Creating a missing table (lines 200-216)\<close>

definition createMissingTable :: "'db execute_fn \<Rightarrow> tbldef \<Rightarrow> (unit, 'db) io" where
  "createMissingTable execute tbldef =
     io_bind (executeSQLCommands execute [getCreateTableSQL tbldef (tbl_name tbldef)])
       (\<lambda>_. io_bind (executeSQLCommands execute (getCreateIndexSQLs tbldef (tbl_name tbldef)))
       (\<lambda>_. io_bind (executeSQLCommands execute
                (map (insert_on_create_sql tbldef) (insert_on_create tbldef)))
       (\<lambda>_. handleDataTransformations execute tbldef)))"

section \<open>Updating an existing table (lines 219-463)\<close>

subsection \<open>The live and the declared columns (lines 224-260)\<close>

text \<open>
  The loop over the rows of \<^verbatim>\<open>pragma table_info\<close>: the state is
  \<open>(old_coldefs_by_name, old_pk_cols_from_table_info)\<close>, the second as pairs
  \<open>(name, idx)\<close> with \<open>idx = pk - 1\<close>. \<^verbatim>\<open>parseDefaultValue\<close> may throw.
\<close>

fun old_coldefs_loop :: "table_info_row list \<Rightarrow> coldef dictionary \<times> (string \<times> nat) list
    \<Rightarrow> error + coldef dictionary \<times> (string \<times> nat) list" where
  "old_coldefs_loop [] acc = Inr acc"
| "old_coldefs_loop (r # rest) (old_coldefs_by_name, pk_cols) =
     (case parseDefaultValue (ti_dflt_value r) of
        Inl e \<Rightarrow> Inl e
      | Inr d \<Rightarrow>
          old_coldefs_loop rest
            (obj_set (ti_name r)
               \<lparr>col_name = ti_name r, col_type = ti_type r,
                col_notnull = (if ti_notnull r \<noteq> 0 then True else False),
                col_dflt_value = d\<rparr> old_coldefs_by_name,
             if ti_pk r > 0 then pk_cols @ [(ti_name r, ti_pk r - 1)] else pk_cols))"

text \<open>The \<^verbatim>\<open>sort\<close> by \<open>idx\<close> (stable), then the pairs replaced by their names.\<close>

definition old_pk_cols_from_table_info :: "(string \<times> nat) list \<Rightarrow> string list" where
  "old_pk_cols_from_table_info pk_cols = map fst (sort_key snd pk_cols)"

fun new_coldefs_loop :: "coldef list \<Rightarrow> coldef dictionary \<Rightarrow> coldef dictionary" where
  "new_coldefs_loop [] new_coldefs_by_name = new_coldefs_by_name"
| "new_coldefs_loop (coldef # rest) new_coldefs_by_name =
     new_coldefs_loop rest (obj_set (col_name coldef) coldef new_coldefs_by_name)"

text \<open>\<^verbatim>\<open>for (var k in old_coldefs_by_name) if (!(k in new_coldefs_by_name)) ...\<close>, over
  the names \<^verbatim>\<open>for ... in\<close> enumerates.\<close>

fun drop_columns_loop :: "coldef dictionary \<Rightarrow> string list \<Rightarrow> string list \<Rightarrow> string list" where
  "drop_columns_loop new_coldefs_by_name [] sqls = sqls"
| "drop_columns_loop new_coldefs_by_name (k # rest) sqls =
     drop_columns_loop new_coldefs_by_name rest
       (if \<not> obj_in coldef_fields k new_coldefs_by_name then sqls @ [''drop column '' @ k]
        else sqls)"

subsection \<open>The declared indexes by name (lines 262-275)\<close>

text \<open>The state is \<open>(new_idxdefs_by_name, new_pk)\<close>.\<close>

fun new_indexes_loop :: "idxdef list \<Rightarrow> idxdef dictionary \<times> idxdef option
    \<Rightarrow> idxdef dictionary \<times> idxdef option" where
  "new_indexes_loop [] acc = acc"
| "new_indexes_loop (idxdef # rest) (new_idxdefs_by_name, new_pk) =
     (if idx_origin idxdef = ''c'' \<or> idx_origin idxdef = ''u''
      then new_indexes_loop rest (obj_set (idx_name idxdef) idxdef new_idxdefs_by_name, new_pk)
      else if idx_origin idxdef = ''pk''
      then new_indexes_loop rest (new_idxdefs_by_name, Some idxdef)
      else new_indexes_loop rest (new_idxdefs_by_name, new_pk))"

subsection \<open>Comparing the columns (lines 281-303)\<close>

definition is_pk_col :: "idxdef option \<Rightarrow> string \<Rightarrow> bool" where
  "is_pk_col new_pk k = (case new_pk of None \<Rightarrow> False | Some pk \<Rightarrow> k \<in> set (idx_columns pk))"

definition is_pk_auto_int_col :: "idxdef option \<Rightarrow> string \<Rightarrow> coldef lookup \<Rightarrow> bool" where
  "is_pk_auto_int_col new_pk k new_coldef =
     (is_pk_col new_pk k \<and> type_of new_coldef = Some ''INTEGER''
      \<and> (case new_pk of None \<Rightarrow> False | Some pk \<Rightarrow> length (idx_columns pk) = 1))"

text \<open>The test of lines 291-296 on the two values read for a name, neither of them
  \<^verbatim>\<open>null\<close>.\<close>

definition column_differs :: "idxdef option \<Rightarrow> string \<Rightarrow> coldef lookup \<Rightarrow> coldef lookup \<Rightarrow> bool" where
  "column_differs new_pk k old_coldef new_coldef =
     (type_of old_coldef \<noteq> type_of new_coldef
      \<or> (\<not> is_pk_col new_pk k \<and> notnull_of old_coldef \<noteq> notnull_of new_coldef)
      \<or> (\<not> is_pk_auto_int_col new_pk k new_coldef
           \<and> dflt_value_of old_coldef \<noteq> dflt_value_of new_coldef))"

text \<open>
  The loop over the names and values enumerated from \<^verbatim>\<open>new_coldefs_by_name\<close>: the
  state is \<open>(old_new_common_colnames, needTableReWrite, drop_add_col_sqls)\<close>. Line 288
  reads \<^verbatim>\<open>new_coldef.type\<close> when the column is in the declared primary key, and lines
  291-295 read the properties of both values when the flag is not yet set; a read from
  \<^verbatim>\<open>null\<close> throws.
\<close>

fun compare_columns_loop :: "idxdef option \<Rightarrow> coldef dictionary \<Rightarrow> (string \<times> coldef propval) list
    \<Rightarrow> string list \<times> bool \<times> string list \<Rightarrow> error + string list \<times> bool \<times> string list" where
  "compare_columns_loop new_pk old_coldefs_by_name [] acc = Inr acc"
| "compare_columns_loop new_pk old_coldefs_by_name ((k, new_coldef) # rest)
       (old_new_common_colnames, needTableReWrite, drop_add_col_sqls) =
     (case obj_get coldef_fields k old_coldefs_by_name of
        Some old_coldef \<Rightarrow>
          (if is_pk_col new_pk k \<and> is_null (Found new_coldef) then Inl TypeError
           else if \<not> needTableReWrite \<and> (is_null old_coldef \<or> is_null (Found new_coldef))
           then Inl TypeError
           else compare_columns_loop new_pk old_coldefs_by_name rest
                  (old_new_common_colnames @ [k],
                   if \<not> needTableReWrite \<and> column_differs new_pk k old_coldef (Found new_coldef)
                   then True else needTableReWrite,
                   drop_add_col_sqls))
      | None \<Rightarrow>
          (case columnDefinitionToSQL_value new_coldef of
             Inl e \<Rightarrow> Inl e
           | Inr sql \<Rightarrow>
               compare_columns_loop new_pk old_coldefs_by_name rest
                 (old_new_common_colnames, needTableReWrite,
                  drop_add_col_sqls @ [''add column '' @ sql])))"

subsection \<open>The live indexes and the live primary key (lines 305-347)\<close>

text \<open>The loop over the rows of \<^verbatim>\<open>pragma index_list\<close>: the state is
  \<open>(old_idxdefs_by_name, old_pk)\<close>.\<close>

fun index_list_loop :: "index_list_row list \<Rightarrow> idxdef dictionary \<times> idxdef option
    \<Rightarrow> idxdef dictionary \<times> idxdef option" where
  "index_list_loop [] acc = acc"
| "index_list_loop (r # rest) (old_idxdefs_by_name, old_pk) =
     (if il_origin r = ''c'' \<or> il_origin r = ''u''
      then (let origin =
                  (if il_origin r = ''c'' \<and> il_unique r \<noteq> None \<and> il_unique r \<noteq> Some 0
                   then ''u'' else il_origin r)
            in index_list_loop rest
                 (obj_set (il_name r)
                    \<lparr>idx_name = il_name r, idx_origin = origin, idx_columns = []\<rparr>
                    old_idxdefs_by_name,
                  old_pk))
      else if il_origin r = ''pk''
      then index_list_loop rest
             (old_idxdefs_by_name,
              Some \<lparr>idx_name = il_name r, idx_origin = il_origin r, idx_columns = []\<rparr>)
      else index_list_loop rest (old_idxdefs_by_name, old_pk))"

definition queryIndexColumns :: "'db select_views \<Rightarrow> idxdef \<Rightarrow> (idxdef, 'db) io" where
  "queryIndexColumns select idxdef =
     io_bind (await_select (index_info_rows select)
                (''pragma index_info('' @ quote (Some (idx_name idxdef)) @ '')''))
       (\<lambda>rows. io_return (idxdef\<lparr>idx_columns := idx_columns idxdef @ rows\<rparr>))"

text \<open>
  \<^verbatim>\<open>queryIndexColumns\<close> called with a value that is not an index object: the read
  \<^verbatim>\<open>idxdef.name\<close> throws for \<^verbatim>\<open>null\<close> and is \<^verbatim>\<open>undefined\<close> otherwise, and
  \<^verbatim>\<open>idxdef.columns.push\<close> throws at the first row, \<^verbatim>\<open>idxdef.columns\<close> being
  \<^verbatim>\<open>undefined\<close>.
\<close>

definition queryIndexColumns_primitive :: "'db select_views \<Rightarrow> jsprim \<Rightarrow> (unit, 'db) io" where
  "queryIndexColumns_primitive select x =
     (case x of
        PNull \<Rightarrow> io_throw TypeError
      | _ \<Rightarrow>
          io_bind (await_select (index_info_rows select)
                     (''pragma index_info('' @ quote (Some ''undefined'') @ '')''))
            (\<lambda>rows. if length rows > 0 then io_throw TypeError else io_return ()))"

text \<open>\<^verbatim>\<open>for (var k in old_idxdefs_by_name) await queryIndexColumns(...)\<close>, over the
  enumerated names and values: each own entry is filled in place, in the order of the
  keys; \<open>filled\<close> are the own entries filled so far.\<close>

fun query_indexes_loop :: "'db select_views \<Rightarrow> (string \<times> idxdef propval) list
    \<Rightarrow> (string \<times> idxdef) list \<Rightarrow> ((string \<times> idxdef) list, 'db) io" where
  "query_indexes_loop select [] filled w = (Inr filled, w)"
| "query_indexes_loop select ((k, Entry idxdef) # rest) filled w =
     (case queryIndexColumns select idxdef w of
        (Inl e, w') \<Rightarrow> (Inl e, w')
      | (Inr idxdef', w') \<Rightarrow> query_indexes_loop select rest (filled @ [(k, idxdef')]) w')"
| "query_indexes_loop select ((k, Primitive x) # rest) filled w =
     (case queryIndexColumns_primitive select x w of
        (Inl e, w') \<Rightarrow> (Inl e, w')
      | (Inr u, w') \<Rightarrow> query_indexes_loop select rest filled w')"

text \<open>Lines 305-347 together: the result is \<open>(old_idxdefs_by_name, old_pk)\<close>, the
  primary key taken from the columns of \<^verbatim>\<open>table_info\<close> when the index list has
  none and those columns are not empty.\<close>

definition introspect_indexes :: "'db select_views \<Rightarrow> tbldef \<Rightarrow> string list
    \<Rightarrow> (idxdef dictionary \<times> idxdef option, 'db) io" where
  "introspect_indexes select tbldef pk_cols_from_table_info =
     io_bind (await_select (index_list_rows select)
                (''pragma index_list('' @ quote (Some (tbl_name tbldef)) @ '')''))
       (\<lambda>rows.
          case index_list_loop rows (empty_object, None) of
            (old_idxdefs_by_name0, old_pk0) \<Rightarrow>
              io_bind (query_indexes_loop select
                         (obj_entries idxdef_fields old_idxdefs_by_name0) [])
                (\<lambda>filled.
                   io_bind (case old_pk0 of
                              None \<Rightarrow> io_return None
                            | Some pk \<Rightarrow>
                                io_bind (queryIndexColumns select pk) (\<lambda>pk'. io_return (Some pk')))
                     (\<lambda>old_pk.
                        io_return
                          (old_idxdefs_by_name0\<lparr>own_properties := filled\<rparr>,
                           if old_pk = None \<and> length pk_cols_from_table_info > 0
                           then Some \<lparr>idx_name = [], idx_origin = ''pk'',
                                      idx_columns = pk_cols_from_table_info\<rparr>
                           else old_pk))))"

subsection \<open>The live foreign keys (lines 357-377)\<close>

text \<open>
  A row whose \<^verbatim>\<open>id\<close> was seen extends the references of that foreign key, which
  \<^verbatim>\<open>fks_by_id\<close> and \<^verbatim>\<open>old_foreign_keys\<close> share; the state is the list of the foreign
  keys in the order they were pushed, each with its id.
\<close>

fun foreign_key_list_loop :: "foreign_key_row list \<Rightarrow> (nat \<times> fkdef) list \<Rightarrow> (nat \<times> fkdef) list" where
  "foreign_key_list_loop [] fks = fks"
| "foreign_key_list_loop (r # rest) fks =
     (if fl_id r \<in> set (map fst fks)
      then foreign_key_list_loop rest
             (map (\<lambda>(i, fk).
                     if i = fl_id r
                     then (i, fk\<lparr>fk_references :=
                                   fk_references fk @ [\<lparr>ref_from = fl_from r, ref_to = fl_to r\<rparr>]\<rparr>)
                     else (i, fk)) fks)
      else foreign_key_list_loop rest
             (fks @ [(fl_id r,
                      \<lparr>fk_table = fl_table r,
                       fk_references = [\<lparr>ref_from = fl_from r, ref_to = fl_to r\<rparr>],
                       fk_on_update = Some (fl_on_update r),
                       fk_on_delete = Some (fl_on_delete r)\<rparr>)]))"

definition introspect_foreign_keys :: "'db select_views \<Rightarrow> tbldef \<Rightarrow> (fkdef list, 'db) io" where
  "introspect_foreign_keys select tbldef =
     io_bind (await_select (foreign_key_list_rows select)
                (''pragma foreign_key_list('' @ quote (Some (tbl_name tbldef)) @ '')''))
       (\<lambda>rows. io_return (map snd (foreign_key_list_loop rows [])))"

subsection \<open>The decision to rewrite (lines 349-355, 379-400)\<close>

definition primary_key_stage :: "bool \<Rightarrow> idxdef option \<Rightarrow> idxdef option \<Rightarrow> bool" where
  "primary_key_stage needTableReWrite old_pk new_pk =
     (if \<not> needTableReWrite
      then (if ((old_pk = None) \<noteq> (new_pk = None))
               \<or> (case (old_pk, new_pk) of
                     (Some opk, Some npk) \<Rightarrow> \<not> doIndexesMatch opk npk
                   | _ \<Rightarrow> False)
            then True else needTableReWrite)
      else needTableReWrite)"

fun match_found_loop :: "fkdef \<Rightarrow> fkdef list \<Rightarrow> bool" where
  "match_found_loop old_fk [] = False"
| "match_found_loop old_fk (fkdef # rest) =
     (if doForeignKeysMatch old_fk fkdef then True else match_found_loop old_fk rest)"

fun unmatched_loop :: "fkdef list \<Rightarrow> fkdef list \<Rightarrow> bool \<Rightarrow> bool" where
  "unmatched_loop [] foreign_keys needTableReWrite = needTableReWrite"
| "unmatched_loop (old_fk # rest) foreign_keys needTableReWrite =
     unmatched_loop rest foreign_keys
       (if \<not> match_found_loop old_fk foreign_keys then True else needTableReWrite)"

definition foreign_key_stage :: "bool \<Rightarrow> fkdef list \<Rightarrow> fkdef list \<Rightarrow> bool" where
  "foreign_key_stage needTableReWrite old_foreign_keys foreign_keys =
     (if \<not> needTableReWrite
      then (if length old_foreign_keys \<noteq> length foreign_keys then True
            else unmatched_loop old_foreign_keys foreign_keys needTableReWrite)
      else needTableReWrite)"

subsection \<open>The two paths (lines 402-463)\<close>

text \<open>The statements of the rewrite; \<open>now\<close> is the value of
  \<^verbatim>\<open>new Date().getTime()\<close>.\<close>

definition rewrite_sqls :: "tbldef \<Rightarrow> nat \<Rightarrow> string list \<Rightarrow> string list" where
  "rewrite_sqls tbldef now old_new_common_colnames =
     (let tmptn = tbl_name tbldef @ ''_new_'' @ string_of_nat now
      in [getCreateTableSQL tbldef tmptn,
          ''insert into '' @ tmptn @ '' ('' @ join '','' old_new_common_colnames @ '')''
            @ '' select '' @ join '','' old_new_common_colnames @ '' from '' @ tbl_name tbldef,
          ''drop table '' @ tbl_name tbldef,
          ''alter table '' @ tmptn @ '' rename to '' @ tbl_name tbldef]
         @ getCreateIndexSQLs tbldef tmptn)"

fun drop_indexes_loop :: "idxdef dictionary \<Rightarrow> string list \<Rightarrow> string list \<Rightarrow> string list" where
  "drop_indexes_loop new_idxdefs_by_name [] drop_idx_sqls = drop_idx_sqls"
| "drop_indexes_loop new_idxdefs_by_name (k # rest) drop_idx_sqls =
     drop_indexes_loop new_idxdefs_by_name rest
       (if \<not> obj_in idxdef_fields k new_idxdefs_by_name then drop_idx_sqls @ [''drop index '' @ k]
        else drop_idx_sqls)"

text \<open>The loop over the names and values enumerated from \<^verbatim>\<open>new_idxdefs_by_name\<close>:
  the state is \<open>(drop_idx_sqls, create_idx_sqls)\<close>.\<close>

fun changed_indexes_loop :: "tbldef \<Rightarrow> idxdef dictionary \<Rightarrow> (string \<times> idxdef propval) list
    \<Rightarrow> string list \<times> string list \<Rightarrow> error + string list \<times> string list" where
  "changed_indexes_loop tbldef old_idxdefs_by_name [] acc = Inr acc"
| "changed_indexes_loop tbldef old_idxdefs_by_name ((k, ni) # rest) (drop_idx_sqls, create_idx_sqls) =
     (case obj_get idxdef_fields k old_idxdefs_by_name of
        Some oi \<Rightarrow>
          (case doIndexesMatch_values oi (Found ni) of
             Inl e \<Rightarrow> Inl e
           | Inr True \<Rightarrow>
               changed_indexes_loop tbldef old_idxdefs_by_name rest (drop_idx_sqls, create_idx_sqls)
           | Inr False \<Rightarrow>
               (case indexDefinitionToSQL_value ni (tbl_name tbldef) of
                  Inl e \<Rightarrow> Inl e
                | Inr isql \<Rightarrow>
                    changed_indexes_loop tbldef old_idxdefs_by_name rest
                      (drop_idx_sqls @ [''drop index '' @ k],
                       if isql \<noteq> [] then create_idx_sqls @ [isql] else create_idx_sqls)))
      | None \<Rightarrow>
          (case indexDefinitionToSQL_value ni (tbl_name tbldef) of
             Inl e \<Rightarrow> Inl e
           | Inr isql \<Rightarrow>
               changed_indexes_loop tbldef old_idxdefs_by_name rest
                 (drop_idx_sqls, if isql \<noteq> [] then create_idx_sqls @ [isql] else create_idx_sqls)))"

text \<open>The two loops of lines 428-450: the result is \<open>(drop_idx_sqls, create_idx_sqls)\<close>.\<close>

definition index_changes :: "tbldef \<Rightarrow> idxdef dictionary \<Rightarrow> idxdef dictionary
    \<Rightarrow> error + string list \<times> string list" where
  "index_changes tbldef old_idxdefs_by_name new_idxdefs_by_name =
     changed_indexes_loop tbldef old_idxdefs_by_name
       (obj_entries idxdef_fields new_idxdefs_by_name)
       (drop_indexes_loop new_idxdefs_by_name (obj_keys idxdef_fields old_idxdefs_by_name) [], [])"

text \<open>
  The statements are issued in the order of the source: the rewrite, or the index
  drops and the \<^verbatim>\<open>alter table\<close>; then the index creations; then the seed
  directives. An exception thrown while the lists are computed ends the run where the
  source computes them: the column loop before the index list is queried, the index
  loops after the foreign keys have been queried and before anything is issued.
\<close>

definition updateExistingTable :: "'db select_views \<Rightarrow> 'db execute_fn \<Rightarrow> nat \<Rightarrow> tbldef
    \<Rightarrow> table_info_row list \<Rightarrow> (unit, 'db) io" where
  "updateExistingTable select execute now tbldef old_coldefs =
     (case old_coldefs_loop old_coldefs (empty_object, []) of
        Inl e \<Rightarrow> io_throw e
      | Inr (old_coldefs_by_name, pk_cols) \<Rightarrow>
          (let new_coldefs_by_name = new_coldefs_loop (tbl_columns tbldef) empty_object;
               drop_col_sqls = drop_columns_loop new_coldefs_by_name
                                 (obj_keys coldef_fields old_coldefs_by_name) [];
               new_idxdefs_by_name = fst (new_indexes_loop (tbl_indexes tbldef) (empty_object, None));
               new_pk = snd (new_indexes_loop (tbl_indexes tbldef) (empty_object, None))
           in case compare_columns_loop new_pk old_coldefs_by_name
                     (obj_entries coldef_fields new_coldefs_by_name) ([], False, drop_col_sqls) of
                Inl e \<Rightarrow> io_throw e
              | Inr (old_new_common_colnames, needTableReWrite0, drop_add_col_sqls) \<Rightarrow>
                  io_bind (introspect_indexes select tbldef (old_pk_cols_from_table_info pk_cols))
                    (\<lambda>(old_idxdefs_by_name, old_pk).
                  io_bind (introspect_foreign_keys select tbldef)
                    (\<lambda>old_foreign_keys.
                  (let needTableReWrite =
                         foreign_key_stage (primary_key_stage needTableReWrite0 old_pk new_pk)
                           old_foreign_keys (tbl_foreign_keys tbldef)
                   in if needTableReWrite
                      then io_bind (executeSQLCommands execute
                                      (rewrite_sqls tbldef now old_new_common_colnames))
                             (\<lambda>_. io_bind (executeSQLCommands execute [])
                             (\<lambda>_. handleDataTransformations execute tbldef))
                      else (case index_changes tbldef old_idxdefs_by_name new_idxdefs_by_name of
                              Inl e \<Rightarrow> io_throw e
                            | Inr (drop_idx_sqls, create_idx_sqls) \<Rightarrow>
                                io_bind (executeSQLCommands execute drop_idx_sqls)
                                  (\<lambda>_. io_bind (if length drop_add_col_sqls > 0
                                                then await_execute execute
                                                       (''alter table '' @ tbl_name tbldef @ '' ''
                                                          @ join '', '' drop_add_col_sqls)
                                                else io_return ())
                                  (\<lambda>_. io_bind (executeSQLCommands execute create_idx_sqls)
                                  (\<lambda>_. handleDataTransformations execute tbldef)))))))))"

section \<open>One table, and all tables (lines 15-18, 538-579)\<close>

text \<open>Lines 538-565, once the arguments have passed the checks, in three steps: the
  foreign-key enforcement is read and switched off if it is on (lines 538-548, the
  result is \<^verbatim>\<open>disabledForeignKeys\<close>); the table is created or updated (lines 550-560);
  the enforcement is switched on again if it was switched off (lines 562-565).\<close>

definition disable_foreign_keys :: "'db select_views \<Rightarrow> 'db execute_fn \<Rightarrow> (bool, 'db) io" where
  "disable_foreign_keys select execute =
     io_bind (await_select (foreign_keys_rows select) ''pragma foreign_keys'')
       (\<lambda>rows.
          if length rows > 0 \<and> hd rows \<noteq> 0
          then io_bind (executeSQLCommands execute [''pragma foreign_keys = 0''])
                 (\<lambda>_. io_return True)
          else io_return False)"

definition create_or_update :: "'db select_views \<Rightarrow> 'db execute_fn \<Rightarrow> nat \<Rightarrow> tbldef \<Rightarrow> (unit, 'db) io" where
  "create_or_update select execute now tbldef =
     io_bind (await_select (table_info_rows select)
                (''pragma table_info('' @ quote (Some (tbl_name tbldef)) @ '')''))
       (\<lambda>rows.
          if length rows = 0 then createMissingTable execute tbldef
          else updateExistingTable select execute now tbldef rows)"

definition reconcile_table :: "'db select_views \<Rightarrow> 'db execute_fn \<Rightarrow> nat \<Rightarrow> tbldef \<Rightarrow> (unit, 'db) io" where
  "reconcile_table select execute now tbldef =
     io_bind (disable_foreign_keys select execute)
       (\<lambda>disabledForeignKeys.
     io_bind (create_or_update select execute now tbldef)
       (\<lambda>_.
     if disabledForeignKeys then executeSQLCommands execute [''pragma foreign_keys = 1'']
     else io_return ()))"

text \<open>
  The arguments as JavaScript values. \<^verbatim>\<open>typeof\<close> answers \<^verbatim>\<open>'object'\<close> for an
  object, for an array and for \<^verbatim>\<open>null\<close>.
\<close>

datatype ('o, 'f) jsvalue =
    JSUndefined
  | JSNull
  | JSBoolean bool
  | JSNumber int
  | JSString string
  | JSFunction 'f
  | JSArray "('o, 'f) jsvalue list"
  | JSObject 'o

fun typeof :: "('o, 'f) jsvalue \<Rightarrow> string" where
  "typeof JSUndefined = ''undefined''"
| "typeof JSNull = ''object''"
| "typeof (JSBoolean b) = ''boolean''"
| "typeof (JSNumber n) = ''number''"
| "typeof (JSString s) = ''string''"
| "typeof (JSFunction f) = ''function''"
| "typeof (JSArray xs) = ''object''"
| "typeof (JSObject obj) = ''object''"

text \<open>
  An array has none of the fields the module reads: every list is empty and
  \<^verbatim>\<open>tbldef.name\<close> is \<^verbatim>\<open>undefined\<close>, which concatenation and \<^verbatim>\<open>String\<close> render as
  the text \<^verbatim>\<open>undefined\<close>.
\<close>

definition array_as_tbldef :: tbldef where
  "array_as_tbldef =
     \<lparr>tbl_name = ''undefined'', tbl_columns = [], tbl_indexes = [], tbl_foreign_keys = [],
      insert_on_create = [], insert_if_not_exists = [], update_if_exists = [],
      delete_if_exists = []\<rparr>"

text \<open>
  The two checks of lines 16-17 come first. A value that passes them is an object, an
  array or \<^verbatim>\<open>null\<close>; the first statement executed then is
  \<^verbatim>\<open>getArray(tbldef, 'columns')\<close> (line 186), whose \<^verbatim>\<open>'columns' in obj\<close> throws a
  \<^verbatim>\<open>TypeError\<close> for \<^verbatim>\<open>null\<close>.
\<close>

definition updateSchemaForSingleTable :: "(tbldef, unit) jsvalue \<Rightarrow> (unit, 'db select_views) jsvalue
    \<Rightarrow> (unit, 'db execute_fn) jsvalue \<Rightarrow> nat \<Rightarrow> (unit, 'db) io" where
  "updateSchemaForSingleTable tbldef select execute now =
     (if typeof tbldef \<noteq> ''object'' then io_throw InvalidDefinition
      else if typeof select \<noteq> ''function'' \<or> typeof execute \<noteq> ''function''
      then io_throw InvalidCollaborator
      else (case (select, execute) of
              (JSFunction sel, JSFunction exe) \<Rightarrow>
                (case tbldef of
                   JSObject t \<Rightarrow> reconcile_table sel exe now t
                 | JSArray xs \<Rightarrow> reconcile_table sel exe now array_as_tbldef
                 | _ \<Rightarrow> io_throw TypeError)
            | _ \<Rightarrow> io_throw InvalidCollaborator))"

text \<open>The loop of \<^verbatim>\<open>updateSchemasForAllTables\<close>; \<open>now\<close> gives the clock value read
  while the table at an index is processed.\<close>

fun all_tables_loop :: "(tbldef, unit) jsvalue list \<Rightarrow> (unit, 'db select_views) jsvalue
    \<Rightarrow> (unit, 'db execute_fn) jsvalue \<Rightarrow> (nat \<Rightarrow> nat) \<Rightarrow> nat \<Rightarrow> (unit, 'db) io" where
  "all_tables_loop [] select execute now tblidx w = (Inr (), w)"
| "all_tables_loop (tbldef # rest) select execute now tblidx w =
     (case updateSchemaForSingleTable tbldef select execute (now tblidx) w of
        (Inl e, w') \<Rightarrow> (Inl e, w')
      | (Inr u, w') \<Rightarrow> all_tables_loop rest select execute now (tblidx + 1) w')"

definition updateSchemasForAllTables :: "(tbldef, unit) jsvalue \<Rightarrow> (unit, 'db select_views) jsvalue
    \<Rightarrow> (unit, 'db execute_fn) jsvalue \<Rightarrow> (nat \<Rightarrow> nat) \<Rightarrow> (unit, 'db) io" where
  "updateSchemasForAllTables tbldefs select execute now =
     (case tbldefs of
        JSArray ts \<Rightarrow>
          if typeof select \<noteq> ''function'' \<or> typeof execute \<noteq> ''function''
          then io_throw InvalidCollaborator
          else all_tables_loop ts select execute now 0
      | _ \<Rightarrow> io_throw InvalidDefinition)"

section \<open>Notions of the specification\<close>

subsection \<open>The column list of a conditional insert\<close>

text \<open>
  The columns and the literals of the \<^verbatim>\<open>INSERT\<close> that \<^verbatim>\<open>insert_if_not_exists\<close>
  describes for an entry: the identifiers, then the other values whose column is not an
  identifier, the test being \<^verbatim>\<open>cn in identifiers\<close>. The generated text is compared
  with these lists below.
\<close>

definition insert_columns :: "seed \<Rightarrow> string list" where
  "insert_columns entry =
     map fst (identifiers entry)
       @ filter (\<lambda>cn. \<not> js_in cn (identifiers entry)) (map fst (other_values entry))"

definition insert_values :: "seed \<Rightarrow> string list" where
  "insert_values entry =
     map (\<lambda>(cn, v). quote v) (identifiers entry)
       @ map (\<lambda>(cn, v). quote v)
           (filter (\<lambda>(cn, v). \<not> js_in cn (identifiers entry)) (other_values entry))"

subsection \<open>The declared primary key and the declared columns\<close>



subsection \<open>The calls a computation issues\<close>

text \<open>
  \<open>issues_only P m\<close>: whatever the world, the calls \<open>m\<close> adds to those issued all
  satisfy \<open>P\<close>. A statement is \<open>plain\<close> when it does not begin with the letter
  \<^verbatim>\<open>p\<close>, as no \<^verbatim>\<open>pragma\<close> does. \<open>seed_statements\<close> are the statements of the three
  conditional seed directives of a declaration.
\<close>

definition issues_only :: "(call \<Rightarrow> bool) \<Rightarrow> ('a, 'db) io \<Rightarrow> bool" where
  "issues_only P m =
     (\<forall>w r w'. m w = (r, w') \<longrightarrow> (\<exists>calls. issued w' = issued w @ calls \<and> list_all P calls))"

definition plain :: "string \<Rightarrow> bool" where
  "plain sql = (sql \<noteq> [] \<and> hd sql \<noteq> CHR ''p'')"

definition not_pragma :: "call \<Rightarrow> bool" where
  "not_pragma c = (case c of Select sql \<Rightarrow> True | Execute sql \<Rightarrow> plain sql)"

definition seed_statements :: "tbldef \<Rightarrow> string list" where
  "seed_statements tbldef =
     List.map_filter (insert_if_not_exists_sql tbldef) (insert_if_not_exists tbldef)
       @ List.map_filter (update_if_exists_sql tbldef) (update_if_exists tbldef)
       @ List.map_filter (delete_if_exists_sql tbldef) (delete_if_exists tbldef)"

section \<open>Example tables and collaborators\<close>

text \<open>
  Concrete inputs on which the functions are run: a database of type \<open>unit\<close>, an
  \<^verbatim>\<open>execute\<close> that accepts every statement, and \<^verbatim>\<open>select\<close> collaborators
  describing a database where the table is missing, and one where it exists with two
  columns and two indexes.
\<close>

definition accepting_execute :: "unit execute_fn" where
  "accepting_execute sql d = Inr d"

definition missing_table_select :: "unit select_views" where
  "missing_table_select =
     \<lparr>foreign_keys_rows = (\<lambda>sql d. Inr [0]), table_info_rows = (\<lambda>sql d. Inr []),
      index_list_rows = (\<lambda>sql d. Inr []), index_info_rows = (\<lambda>sql d. Inr []),
      foreign_key_list_rows = (\<lambda>sql d. Inr [])\<rparr>"

definition existing_table_select :: "unit select_views" where
  "existing_table_select =
     \<lparr>foreign_keys_rows = (\<lambda>sql d. Inr [0]),
      table_info_rows = (\<lambda>sql d. Inr
        [\<lparr>ti_name = ''a'', ti_type = ''INTEGER'', ti_notnull = 1,
          ti_dflt_value = Some [apos, apos], ti_pk = 0\<rparr>,
         \<lparr>ti_name = ''b'', ti_type = ''TEXT'', ti_notnull = 1,
          ti_dflt_value = Some [apos, apos], ti_pk = 0\<rparr>]),
      index_list_rows = (\<lambda>sql d. Inr
        [\<lparr>il_name = ''t_a'', il_origin = ''c'', il_unique = Some 0\<rparr>,
         \<lparr>il_name = ''t_b'', il_origin = ''c'', il_unique = Some 0\<rparr>]),
      index_info_rows = (\<lambda>sql d.
         if sql = ''pragma index_info('' @ [apos] @ ''t_a'' @ [apos] @ '')''
         then Inr [''a''] else Inr [''b'']),
      foreign_key_list_rows = (\<lambda>sql d. Inr [])\<rparr>"

text \<open>The declared table \<^verbatim>\<open>t\<close>: two text columns, a plain index on each.\<close>

definition two_index_table :: tbldef where
  "two_index_table =
     \<lparr>tbl_name = ''t'',
      tbl_columns =
        [\<lparr>col_name = ''a'', col_type = ''TEXT'', col_notnull = True, col_dflt_value = Some []\<rparr>,
         \<lparr>col_name = ''b'', col_type = ''TEXT'', col_notnull = True, col_dflt_value = Some []\<rparr>],
      tbl_indexes =
        [\<lparr>idx_name = ''t_a'', idx_origin = ''c'', idx_columns = [''a'']\<rparr>,
         \<lparr>idx_name = ''t_b'', idx_origin = ''c'', idx_columns = [''b'']\<rparr>],
      tbl_foreign_keys = [], insert_on_create = [], insert_if_not_exists = [],
      update_if_exists = [], delete_if_exists = []\<rparr>"

text \<open>A seed entry whose \<^verbatim>\<open>identifiers\<close> and \<^verbatim>\<open>other_values\<close> both name the
  column \<^verbatim>\<open>k\<close>, one with no identifiers, and one whose other value is for a column
  named \<^verbatim>\<open>constructor\<close>.\<close>

definition overlapping_seed :: seed where
  "overlapping_seed =
     \<lparr>identifiers = [(''k'', Some ''1'')],
      other_values = [(''k'', Some ''2''), (''v'', Some ''x'')]\<rparr>"

definition seed_without_identifiers :: seed where
  "seed_without_identifiers = \<lparr>identifiers = [], other_values = [(''v'', Some ''x'')]\<rparr>"

definition seed_with_inherited_name :: seed where
  "seed_with_inherited_name =
     \<lparr>identifiers = [(''k'', Some ''1'')], other_values = [(''constructor'', Some ''x'')]\<rparr>"

text \<open>A table whose primary key is \<^verbatim>\<open>(a, b)\<close>, the columns listed in another order,
  seen through a database that does not list the primary key among the indexes and
  through one that does.\<close>

definition composite_key_rows :: "table_info_row list" where
  "composite_key_rows =
     [\<lparr>ti_name = ''b'', ti_type = ''TEXT'', ti_notnull = 1, ti_dflt_value = Some [apos, apos], ti_pk = 2\<rparr>,
      \<lparr>ti_name = ''a'', ti_type = ''TEXT'', ti_notnull = 1, ti_dflt_value = Some [apos, apos], ti_pk = 1\<rparr>,
      \<lparr>ti_name = ''c'', ti_type = ''TEXT'', ti_notnull = 0, ti_dflt_value = None, ti_pk = 0\<rparr>]"

definition unlisted_pk_select :: "unit select_views" where
  "unlisted_pk_select =
     \<lparr>foreign_keys_rows = (\<lambda>sql d. Inr [0]),
      table_info_rows = (\<lambda>sql d. Inr composite_key_rows),
      index_list_rows = (\<lambda>sql d. Inr []),
      index_info_rows = (\<lambda>sql d. Inr []),
      foreign_key_list_rows = (\<lambda>sql d. Inr [])\<rparr>"

definition listed_pk_select :: "unit select_views" where
  "listed_pk_select =
     \<lparr>foreign_keys_rows = (\<lambda>sql d. Inr [0]),
      table_info_rows = (\<lambda>sql d. Inr composite_key_rows),
      index_list_rows = (\<lambda>sql d. Inr
        [\<lparr>il_name = ''sqlite_autoindex_t_1'', il_origin = ''pk'', il_unique = Some 1\<rparr>]),
      index_info_rows = (\<lambda>sql d. Inr [''a'', ''b'']),
      foreign_key_list_rows = (\<lambda>sql d. Inr [])\<rparr>"

text \<open>
  The table \<^verbatim>\<open>item\<close> with an \<^verbatim>\<open>INTEGER\<close> primary key and seed directives. Its live
  columns after creation: the key column is rendered \<^verbatim>\<open>INTEGER PRIMARY KEY\<close>, so it is
  nullable and without default in \<^verbatim>\<open>table_info\<close>. And the same with column
  \<^verbatim>\<open>label\<close> nullable.
\<close>

definition keyed_table :: tbldef where
  "keyed_table =
     \<lparr>tbl_name = ''item'',
      tbl_columns =
        [\<lparr>col_name = ''id'', col_type = ''INTEGER'', col_notnull = True, col_dflt_value = Some ''0''\<rparr>,
         \<lparr>col_name = ''label'', col_type = ''TEXT'', col_notnull = True, col_dflt_value = Some []\<rparr>],
      tbl_indexes =
        [\<lparr>idx_name = [], idx_origin = ''pk'', idx_columns = [''id'']\<rparr>,
         \<lparr>idx_name = ''item_label'', idx_origin = ''u'', idx_columns = [''label'']\<rparr>],
      tbl_foreign_keys = [],
      insert_on_create = [],
      insert_if_not_exists =
        [\<lparr>identifiers = [(''id'', Some ''1'')], other_values = [(''label'', Some ''first'')]\<rparr>],
      update_if_exists = [],
      delete_if_exists = [[(''label'', Some ''obsolete'')]]\<rparr>"

definition keyed_live_columns :: "coldef dictionary" where
  "keyed_live_columns =
     \<lparr>own_properties =
        [(''id'', \<lparr>col_name = ''id'', col_type = ''INTEGER'', col_notnull = False, col_dflt_value = None\<rparr>),
         (''label'', \<lparr>col_name = ''label'', col_type = ''TEXT'', col_notnull = True, col_dflt_value = Some []\<rparr>)],
      prototype = None\<rparr>"


text \<open>A database with foreign-key enforcement on and no table, and an \<^verbatim>\<open>execute\<close>
  that refuses every \<^verbatim>\<open>create\<close> statement.\<close>

definition enforcing_select :: "unit select_views" where
  "enforcing_select =
     \<lparr>foreign_keys_rows = (\<lambda>sql d. Inr [1]), table_info_rows = (\<lambda>sql d. Inr []),
      index_list_rows = (\<lambda>sql d. Inr []), index_info_rows = (\<lambda>sql d. Inr []),
      foreign_key_list_rows = (\<lambda>sql d. Inr [])\<rparr>"

definition refusing_create_execute :: "unit execute_fn" where
  "refusing_create_execute sql d =
     (if take 6 sql = ''create'' then Inl (CollaboratorFailure ''refused'') else Inr d)"

text \<open>The database after the table \<^verbatim>\<open>item\<close> has been created from its declaration,
  with foreign-key enforcement on: the unique index is listed with origin \<^verbatim>\<open>c\<close> and
  \<^verbatim>\<open>unique = 1\<close>, the primary key is not listed.\<close>

definition created_item_select :: "unit select_views" where
  "created_item_select =
     \<lparr>foreign_keys_rows = (\<lambda>sql d. Inr [1]),
      table_info_rows = (\<lambda>sql d. Inr
        [\<lparr>ti_name = ''id'', ti_type = ''INTEGER'', ti_notnull = 0, ti_dflt_value = None, ti_pk = 1\<rparr>,
         \<lparr>ti_name = ''label'', ti_type = ''TEXT'', ti_notnull = 1,
          ti_dflt_value = Some [apos, apos], ti_pk = 0\<rparr>]),
      index_list_rows = (\<lambda>sql d. Inr
        [\<lparr>il_name = ''item_label'', il_origin = ''c'', il_unique = Some 1\<rparr>]),
      index_info_rows = (\<lambda>sql d. Inr [''label'']),
      foreign_key_list_rows = (\<lambda>sql d. Inr [])\<rparr>"

text \<open>
  A database where the table \<^verbatim>\<open>t\<close> has the single column \<^verbatim>\<open>a\<close>, no index and no
  foreign key, and two declarations of \<^verbatim>\<open>t\<close> that add one column to it: a column
  named \<^verbatim>\<open>b\<close>, and a column named \<^verbatim>\<open>constructor\<close>.
\<close>

definition one_column_select :: "unit select_views" where
  "one_column_select =
     \<lparr>foreign_keys_rows = (\<lambda>sql d. Inr [0]),
      table_info_rows = (\<lambda>sql d. Inr
        [\<lparr>ti_name = ''a'', ti_type = ''TEXT'', ti_notnull = 1,
          ti_dflt_value = Some [apos, apos], ti_pk = 0\<rparr>]),
      index_list_rows = (\<lambda>sql d. Inr []), index_info_rows = (\<lambda>sql d. Inr []),
      foreign_key_list_rows = (\<lambda>sql d. Inr [])\<rparr>"

definition table_with_added_column :: "string \<Rightarrow> tbldef" where
  "table_with_added_column added =
     \<lparr>tbl_name = ''t'',
      tbl_columns =
        [\<lparr>col_name = ''a'', col_type = ''TEXT'', col_notnull = True, col_dflt_value = Some []\<rparr>,
         \<lparr>col_name = added, col_type = ''TEXT'', col_notnull = True, col_dflt_value = Some []\<rparr>],
      tbl_indexes = [], tbl_foreign_keys = [], insert_on_create = [], insert_if_not_exists = [],
      update_if_exists = [], delete_if_exists = []\<rparr>"

text \<open>
  A database that is the list of the statements executed on it, empty at first. It
  answers for the table \<^verbatim>\<open>t\<close> of \<open>two_index_table\<close> as SQLite does: the table exists
  with its two columns once its \<^verbatim>\<open>create table\<close> has been executed, and the index
  list holds \<^verbatim>\<open>t_a\<close> and \<^verbatim>\<open>t_b\<close>, each once its \<^verbatim>\<open>create index\<close> has been
  executed.
\<close>

definition recording_execute :: "string list execute_fn" where
  "recording_execute sql d = Inr (d @ [sql])"

definition recorded_select :: "string list select_views" where
  "recorded_select =
     \<lparr>foreign_keys_rows = (\<lambda>sql d. Inr [0]),
      table_info_rows = (\<lambda>sql d.
         if getCreateTableSQL two_index_table ''t'' \<in> set d
         then Inr [\<lparr>ti_name = ''a'', ti_type = ''TEXT'', ti_notnull = 1,
                    ti_dflt_value = Some [apos, apos], ti_pk = 0\<rparr>,
                   \<lparr>ti_name = ''b'', ti_type = ''TEXT'', ti_notnull = 1,
                    ti_dflt_value = Some [apos, apos], ti_pk = 0\<rparr>]
         else Inr []),
      index_list_rows = (\<lambda>sql d. Inr
         ((if ''create  index t_a on t (a)'' \<in> set d
           then [\<lparr>il_name = ''t_a'', il_origin = ''c'', il_unique = Some 0\<rparr>] else [])
          @ (if ''create  index t_b on t (b)'' \<in> set d
             then [\<lparr>il_name = ''t_b'', il_origin = ''c'', il_unique = Some 0\<rparr>] else []))),
      index_info_rows = (\<lambda>sql d.
         if sql = ''pragma index_info('' @ [apos] @ ''t_a'' @ [apos] @ '')''
         then Inr [''a''] else Inr [''b'']),
      foreign_key_list_rows = (\<lambda>sql d. Inr [])\<rparr>"

section \<open>The literal codec: what the code does\<close>

lemma replace_first_no_match:
  "p \<notin> set v \<Longrightarrow> replace_first [p] rep v = v"
  by (induction v) auto

lemma replace_first_undo:
  "replace_first [p, p] [p] (replace_first [p] [p, p] v) = v"
proof (induction v)
  case Nil
  show ?case by simp
next
  case (Cons c cs)
  show ?case
  proof (cases "c = p")
    case True
    then show ?thesis by simp
  next
    case False
    with Cons show ?thesis by simp
  qed
qed

lemma replace_first_nonempty:
  "v \<noteq> [] \<Longrightarrow> replace_first [p] [p, p] v \<noteq> []"
  by (cases v) auto

lemma unquote_quote_string:
  "unquote (Some (quote (Some v))) = Inr (Some v)"
proof (cases "v = []")
  case True
  then show ?thesis by (simp add: quote_def unquote_def)
next
  case False
  let ?m = "replace_first [apos] [apos, apos] v"
  have ne: "?m \<noteq> []" using False by (rule replace_first_nonempty)
  then have len: "length ?m \<noteq> 0" by simp
  have "take (length ?m) ?m = ?m" by simp
  with ne len show ?thesis
    by (simp add: quote_def unquote_def replace_first_undo)
qed

text \<open>
  \<^bold>\<open>C3\<close>. The specification asks that \<^verbatim>\<open>quote\<close> double every embedded single
  quote and \<^verbatim>\<open>unquote\<close> undo every doubling. On the value \<^verbatim>\<open>a'b'c\<close>, which has two
  embedded single quotes, the code produces \<^verbatim>\<open>'a''b'c'\<close>: only the first quote is
  doubled, so the literal is not the fully escaped \<^verbatim>\<open>'a''b''c'\<close>; and on the fully
  escaped literal \<^verbatim>\<open>unquote\<close> gives back \<^verbatim>\<open>a'b''c\<close>, not \<^verbatim>\<open>a'b'c\<close>.
\<close>

theorem quote_escapes_first_occurrence_only:
  "quote (Some (''a'' @ [apos] @ ''b'' @ [apos] @ ''c''))
     = [apos] @ ''a'' @ [apos, apos] @ ''b'' @ [apos] @ ''c'' @ [apos]
   \<and> quote (Some (''a'' @ [apos] @ ''b'' @ [apos] @ ''c''))
     \<noteq> quote_every (''a'' @ [apos] @ ''b'' @ [apos] @ ''c'')
   \<and> unquote (Some (quote_every (''a'' @ [apos] @ ''b'' @ [apos] @ ''c'')))
     = Inr (Some (''a'' @ [apos] @ ''b'' @ [apos, apos] @ ''c''))"
  by (simp add: quote_def quote_every_def unquote_def)

theorem quote_escapes_first_occurrence_only_witness:
  "unquote (Some (quote_every (''a'' @ [apos] @ ''b'' @ [apos] @ ''c'')))
     \<noteq> Inr (Some (''a'' @ [apos] @ ''b'' @ [apos] @ ''c''))"
  using quote_escapes_first_occurrence_only by simp

section \<open>Issuing statements: what the loop does\<close>

lemma executeSQLCommands_from_append:
  "executeSQLCommands_from execute (xs @ ys) (length xs + i) w
     = executeSQLCommands_from execute ys i w"
proof (induction execute ys i w rule: executeSQLCommands_from.induct)
  case (1 execute cmdlist cmdi w)
  show ?case
  proof (cases "cmdi < length cmdlist")
    case False
    then show ?thesis
      by (simp add: executeSQLCommands_from.simps [of execute "xs @ cmdlist"]
            executeSQLCommands_from.simps [of execute cmdlist])
  next
    case True
    show ?thesis
    proof (cases "await_execute execute (cmdlist ! cmdi) w")
      case (Pair r w')
      show ?thesis
      proof (cases r)
        case (Inl e)
        with True Pair show ?thesis
          by (simp add: executeSQLCommands_from.simps [of execute "xs @ cmdlist" "length xs + cmdi"]
                executeSQLCommands_from.simps [of execute cmdlist cmdi] nth_append)
      next
        case (Inr u)
        have "executeSQLCommands_from execute (xs @ cmdlist) (length xs + (cmdi + 1 + 1)) w'
            = executeSQLCommands_from execute cmdlist (cmdi + 1 + 1) w'"
          using "1.IH" [OF True Pair [symmetric] Inr] .
        with True Pair Inr show ?thesis
          by (simp add: executeSQLCommands_from.simps [of execute "xs @ cmdlist" "length xs + cmdi"]
                executeSQLCommands_from.simps [of execute cmdlist cmdi] nth_append add.assoc)
      qed
    qed
  qed
qed

lemma executeSQLCommands_Nil: "executeSQLCommands execute [] w = (Inr (), w)"
  by (simp add: executeSQLCommands_def executeSQLCommands_from.simps)

lemma executeSQLCommands_single:
  "executeSQLCommands execute [x] w =
     (case await_execute execute x w of (Inl e, w') \<Rightarrow> (Inl e, w') | (Inr u, w') \<Rightarrow> (Inr (), w'))"
  by (simp add: executeSQLCommands_def executeSQLCommands_from.simps [of execute "[x]"]
        split: prod.splits sum.splits)

text \<open>Of two consecutive statements the first is executed and the second is passed
  over.\<close>

lemma executeSQLCommands_Cons2:
  "executeSQLCommands execute (x # y # rest) w =
     (case await_execute execute x w of
        (Inl e, w') \<Rightarrow> (Inl e, w')
      | (Inr u, w') \<Rightarrow> executeSQLCommands execute rest w')"
proof -
  have "executeSQLCommands_from execute ([x, y] @ rest) (length [x, y] + 0) w'
      = executeSQLCommands_from execute rest 0 w'" for w'
    by (rule executeSQLCommands_from_append)
  then show ?thesis
    by (simp add: executeSQLCommands_def executeSQLCommands_from.simps [of execute "x # y # rest" 0]
          split: prod.splits sum.splits)
qed

text \<open>
  \<^bold>\<open>C1\<close>. Every generated statement is to be issued to \<^verbatim>\<open>execute\<close> exactly once
  and in order. The table \<^verbatim>\<open>t\<close> with two declared indexes is reconciled against a
  database in which it does not exist: two \<^verbatim>\<open>create index\<close> statements are
  generated, and the run, which succeeds, issues the first only; the index \<^verbatim>\<open>t_b\<close> is
  never created.
\<close>

theorem executeSQLCommands_skips_every_second_statement:
  "getCreateIndexSQLs two_index_table ''t''
     = [''create  index t_a on t (a)'', ''create  index t_b on t (b)'']
   \<and> updateSchemaForSingleTable (JSObject two_index_table) (JSFunction missing_table_select)
        (JSFunction accepting_execute) 7 \<lparr>store = (), issued = []\<rparr>
     = (Inr (),
        \<lparr>store = (),
         issued =
           [Select ''pragma foreign_keys'',
            Select (''pragma table_info('' @ [apos] @ ''t'' @ [apos] @ '')''),
            Execute (''create table t ( a TEXT NOT NULL DEFAULT ''
                       @ [apos, apos, CHR '','', newline]
                       @ '' b TEXT NOT NULL DEFAULT '' @ [apos, apos, newline] @ '')''),
            Execute ''create  index t_a on t (a)'']\<rparr>)"
  by code_simp

theorem executeSQLCommands_skips_every_second_statement_witness:
  "Execute ''create  index t_b on t (b)''
     \<notin> set (issued (snd (updateSchemaForSingleTable (JSObject two_index_table)
                (JSFunction missing_table_select) (JSFunction accepting_execute) 7
                \<lparr>store = (), issued = []\<rparr>)))"
  using executeSQLCommands_skips_every_second_statement by simp

text \<open>
  \<^bold>\<open>C2\<close>. The rewrite is to issue, in order, the creation of the temporary table, the
  copy of the common columns, the drop of the original, the renaming, and one
  \<^verbatim>\<open>create index\<close> for each declared index. The table \<^verbatim>\<open>t\<close> exists with column
  \<^verbatim>\<open>a\<close> of type \<^verbatim>\<open>INTEGER\<close> and is declared with type \<^verbatim>\<open>TEXT\<close>, which needs the
  rewrite. The six statements are generated, and the run, which succeeds, issues the
  first, the third and the fifth: the rows are never copied and the temporary table is
  never renamed, after the original has been dropped.
\<close>

theorem rewrite_issues_neither_copy_nor_rename:
  "rewrite_sqls two_index_table 7 [''a'', ''b'']
     = [''create table t_new_7 ( a TEXT NOT NULL DEFAULT '' @ [apos, apos, CHR '','', newline]
          @ '' b TEXT NOT NULL DEFAULT '' @ [apos, apos, newline] @ '')'',
        ''insert into t_new_7 (a,b) select a,b from t'',
        ''drop table t'',
        ''alter table t_new_7 rename to t'',
        ''create  index t_a on t_new_7 (a)'',
        ''create  index t_b on t_new_7 (b)'']
   \<and> updateSchemaForSingleTable (JSObject two_index_table) (JSFunction existing_table_select)
        (JSFunction accepting_execute) 7 \<lparr>store = (), issued = []\<rparr>
     = (Inr (),
        \<lparr>store = (),
         issued =
           [Select ''pragma foreign_keys'',
            Select (''pragma table_info('' @ [apos] @ ''t'' @ [apos] @ '')''),
            Select (''pragma index_list('' @ [apos] @ ''t'' @ [apos] @ '')''),
            Select (''pragma index_info('' @ [apos] @ ''t_a'' @ [apos] @ '')''),
            Select (''pragma index_info('' @ [apos] @ ''t_b'' @ [apos] @ '')''),
            Select (''pragma foreign_key_list('' @ [apos] @ ''t'' @ [apos] @ '')''),
            Execute (''create table t_new_7 ( a TEXT NOT NULL DEFAULT ''
                       @ [apos, apos, CHR '','', newline]
                       @ '' b TEXT NOT NULL DEFAULT '' @ [apos, apos, newline] @ '')''),
            Execute ''drop table t'',
            Execute ''create  index t_a on t_new_7 (a)'']\<rparr>)"
  by code_simp

theorem rewrite_issues_neither_copy_nor_rename_witness:
  "Execute ''insert into t_new_7 (a,b) select a,b from t''
     \<notin> set (issued (snd (updateSchemaForSingleTable (JSObject two_index_table)
                (JSFunction existing_table_select) (JSFunction accepting_execute) 7
                \<lparr>store = (), issued = []\<rparr>)))
   \<and> Execute ''alter table t_new_7 rename to t''
     \<notin> set (issued (snd (updateSchemaForSingleTable (JSObject two_index_table)
                (JSFunction existing_table_select) (JSFunction accepting_execute) 7
                \<lparr>store = (), issued = []\<rparr>)))"
  using rewrite_issues_neither_copy_nor_rename by simp

section \<open>Seed directives: the conditional insert\<close>

lemma join_Cons: "join sep (x # xs) = x @ concat (map (\<lambda>y. sep @ y) xs)"
  by (induction xs arbitrary: x) auto

lemma iine_identifiers_loop_separated:
  "sepcomma \<noteq> [] \<Longrightarrow> sepand \<noteq> [] \<Longrightarrow>
   iine_identifiers_loop ids (sqlpart1, sqlpart2, sqlpart3, sepcomma, sepand) =
     (sqlpart1 @ concat (map (\<lambda>(cn, v). sepcomma @ cn) ids),
      sqlpart2 @ concat (map (\<lambda>(cn, v). sepcomma @ quote v) ids),
      sqlpart3 @ concat (map (\<lambda>(cn, v). sepand @ cn @ '' = '' @ quote v) ids),
      sepcomma, sepand)"
  by (induction ids arbitrary: sqlpart1 sqlpart2 sqlpart3) (auto simp: Let_def)

lemma iine_other_values_loop_separated:
  "sepcomma \<noteq> [] \<Longrightarrow>
   iine_other_values_loop ids others (sqlpart1, sqlpart2, sepcomma) =
     (sqlpart1 @ concat (map (\<lambda>(cn, v). sepcomma @ cn)
                           (filter (\<lambda>(cn, v). \<not> js_in cn ids) others)),
      sqlpart2 @ concat (map (\<lambda>(cn, v). sepcomma @ quote v)
                           (filter (\<lambda>(cn, v). \<not> js_in cn ids) others)),
      sepcomma)"
  by (induction others arbitrary: sqlpart1 sqlpart2) (auto simp: Let_def)

lemma insert_if_not_exists_sql_empty:
  "identifiers entry = [] \<Longrightarrow> insert_if_not_exists_sql tbldef entry = None"
  by (simp add: insert_if_not_exists_sql_def)

lemma filter_map_fst: "filter P (map fst xs) = map fst (filter (\<lambda>(cn, v). P cn) xs)"
  by (induction xs) auto

lemma insert_if_not_exists_sql_text:
  assumes "identifiers entry \<noteq> []"
  shows "insert_if_not_exists_sql tbldef entry =
     Some (''insert into '' @ tbl_name tbldef @ '' ('' @ join '', '' (insert_columns entry)
           @ '') select '' @ join '', '' (insert_values entry)
           @ '' where not exists (select 1 from '' @ tbl_name tbldef @ '' where ''
           @ join '' and '' (map (\<lambda>(cn, v). cn @ '' = '' @ quote v) (identifiers entry)) @ '')'')"
proof -
  obtain cn v rest where ids: "identifiers entry = (cn, v) # rest"
    using assms by (cases "identifiers entry") auto
  show ?thesis
    by (simp add: insert_if_not_exists_sql_def ids insert_columns_def insert_values_def
          iine_identifiers_loop_separated iine_other_values_loop_separated join_Cons
          filter_map_fst map_concat comp_def case_prod_unfold Let_def)
qed

lemma count_list_distinct: "distinct xs \<Longrightarrow> x \<in> set xs \<Longrightarrow> count_list xs x = 1"
  by (induction xs) (auto simp: count_list_0_iff)

lemma map_of_zip_quote:
  "distinct (map fst ids) \<Longrightarrow> (cn, v) \<in> set ids \<Longrightarrow>
   map_of (zip (map fst ids) (map (\<lambda>(cn, v). quote v) ids)) cn = Some (quote v)"
  by (induction ids) (auto simp: rev_image_eqI)

lemma insert_columns_once:
  assumes "distinct (map fst (identifiers entry))" and "(cn, v) \<in> set (identifiers entry)"
  shows "count_list (insert_columns entry) cn = 1"
    and "map_of (zip (insert_columns entry) (insert_values entry)) cn = Some (quote v)"
proof -
  have mem: "cn \<in> set (map fst (identifiers entry))"
    using assms(2) by (force simp: rev_image_eqI)
  have "count_list (filter (\<lambda>cn. \<not> js_in cn (identifiers entry)) (map fst (other_values entry))) cn = 0"
    using mem by (simp add: count_list_0_iff js_in_def)
  then show "count_list (insert_columns entry) cn = 1"
    using count_list_distinct [OF assms(1) mem] by (simp add: insert_columns_def)
  show "map_of (zip (insert_columns entry) (insert_values entry)) cn = Some (quote v)"
    using map_of_zip_quote [OF assms] 
    by (simp add: insert_columns_def insert_values_def zip_append map_add_def)
qed

text \<open>
  \<^bold>\<open>C10\<close>. An \<^verbatim>\<open>insert_if_not_exists\<close> entry with no identifiers generates no
  statement, whatever its other values; otherwise the generated statement inserts the
  columns \<open>insert_columns\<close> with the literals \<open>insert_values\<close>, and a column named by
  both \<^verbatim>\<open>identifiers\<close> and \<^verbatim>\<open>other_values\<close> occurs exactly once in that column list,
  with the literal of its value in \<^verbatim>\<open>identifiers\<close>. (The keys of an object are
  distinct. \<open>insert_columns\<close> leaves out the other values whose name is
  \<^verbatim>\<open>in identifiers\<close>, which every name inherited from \<^verbatim>\<open>Object.prototype\<close> is: the
  entry with the identifier \<^verbatim>\<open>k\<close> and the other value \<^verbatim>\<open>constructor\<close> inserts the
  column \<^verbatim>\<open>k\<close> alone.)
\<close>

theorem insert_if_not_exists_entry:
  assumes "distinct (map fst (identifiers entry))"
  shows "(if identifiers entry = [] then insert_if_not_exists_sql tbldef entry = None
          else insert_if_not_exists_sql tbldef entry =
     Some (''insert into '' @ tbl_name tbldef @ '' ('' @ join '', '' (insert_columns entry)
           @ '') select '' @ join '', '' (insert_values entry)
           @ '' where not exists (select 1 from '' @ tbl_name tbldef @ '' where ''
           @ join '' and '' (map (\<lambda>(cn, v). cn @ '' = '' @ quote v) (identifiers entry)) @ '')''))
       \<and> (\<forall>cn v. (cn, v) \<in> set (identifiers entry) \<and> cn \<in> set (map fst (other_values entry))
             \<longrightarrow> count_list (insert_columns entry) cn = 1
               \<and> map_of (zip (insert_columns entry) (insert_values entry)) cn = Some (quote v))"
  using insert_if_not_exists_sql_empty [of entry tbldef] insert_if_not_exists_sql_text [of entry tbldef]
    insert_columns_once [OF assms]
  by auto

theorem insert_if_not_exists_entry_witness:
  "distinct (map fst (identifiers overlapping_seed))
   \<and> insert_if_not_exists_sql two_index_table overlapping_seed
       = Some (''insert into t (k, v) select '' @ [apos] @ ''1'' @ [apos] @ '', '' @ [apos] @ ''x'' @ [apos]
               @ '' where not exists (select 1 from t where k = '' @ [apos] @ ''1'' @ [apos] @ '')'')
   \<and> count_list (insert_columns overlapping_seed) ''k'' = 1
   \<and> map_of (zip (insert_columns overlapping_seed) (insert_values overlapping_seed)) ''k''
       = Some ([apos] @ ''1'' @ [apos])
   \<and> distinct (map fst (identifiers seed_without_identifiers))
   \<and> insert_if_not_exists_sql two_index_table seed_without_identifiers = None
   \<and> distinct (map fst (identifiers seed_with_inherited_name))
   \<and> insert_if_not_exists_sql two_index_table seed_with_inherited_name
       = Some (''insert into t (k) select '' @ [apos] @ ''1'' @ [apos]
               @ '' where not exists (select 1 from t where k = '' @ [apos] @ ''1'' @ [apos] @ '')'')"
  using insert_if_not_exists_entry [of overlapping_seed two_index_table]
    insert_if_not_exists_entry [of seed_without_identifiers two_index_table]
    insert_if_not_exists_entry [of seed_with_inherited_name two_index_table]
  by (simp add: overlapping_seed_def seed_without_identifiers_def seed_with_inherited_name_def
        two_index_table_def insert_columns_def insert_values_def js_in_def
        object_prototype_names_def quote_def)

section \<open>The argument checks\<close>

text \<open>A declaration whose \<^verbatim>\<open>typeof\<close> is not \<^verbatim>\<open>'object'\<close> is refused by the first
  check, and a collaborator that is not a function by the second, before any call.\<close>

lemma updateSchemaForSingleTable_not_object:
  "typeof tbldef \<noteq> ''object'' \<Longrightarrow>
   updateSchemaForSingleTable tbldef select execute now w = (Inl InvalidDefinition, w)"
  by (simp add: updateSchemaForSingleTable_def io_throw_def)

lemma updateSchemaForSingleTable_not_function:
  "typeof tbldef = ''object'' \<Longrightarrow> typeof select \<noteq> ''function'' \<or> typeof execute \<noteq> ''function'' \<Longrightarrow>
   updateSchemaForSingleTable tbldef select execute now w = (Inl InvalidCollaborator, w)"
  by (auto simp: updateSchemaForSingleTable_def io_throw_def)

text \<open>An array passes the first check and is reconciled as a table without columns
  named \<^verbatim>\<open>undefined\<close>.\<close>

lemma updateSchemaForSingleTable_array:
  "updateSchemaForSingleTable (JSArray xs) (JSFunction select) (JSFunction execute) now
     = reconcile_table select execute now array_as_tbldef"
  by (simp add: updateSchemaForSingleTable_def)

text \<open>
  \<^bold>\<open>C9\<close>. A declaration that is not a record, \<^verbatim>\<open>null\<close> included, is to be refused
  with \<open>InvalidDefinition\<close>. For \<^verbatim>\<open>null\<close> the check of line 16 does not fire, since
  \<^verbatim>\<open>typeof null\<close> is \<^verbatim>\<open>'object'\<close>: with both collaborators callable the call ends
  with the \<open>TypeError\<close> of line 186 instead, no call issued.
\<close>

theorem null_declaration_passes_the_object_check:
  "typeof (JSNull :: (tbldef, unit) jsvalue) = ''object''
   \<and> updateSchemaForSingleTable JSNull (JSFunction select) (JSFunction execute) now w
     = (Inl TypeError, w)"
  by (simp add: updateSchemaForSingleTable_def io_throw_def)

theorem null_declaration_passes_the_object_check_witness:
  "updateSchemaForSingleTable JSNull (JSFunction missing_table_select)
       (JSFunction accepting_execute) 7 \<lparr>store = (), issued = []\<rparr>
     \<noteq> (Inl InvalidDefinition, \<lparr>store = (), issued = []\<rparr>)"
  using null_declaration_passes_the_object_check
          [of missing_table_select accepting_execute 7 "\<lparr>store = (), issued = []\<rparr>"]
  by simp

section \<open>The live primary key\<close>

lemma insort_key_map:
  "insort_key f (g x) (map g xs) = map g (insort_key (\<lambda>y. f (g y)) x xs)"
  by (induction xs) auto

lemma sort_key_map:
  "sort_key f (map g xs) = map g (sort_key (\<lambda>y. f (g y)) xs)"
  by (induction xs) (simp_all add: insort_key_map)

lemma insort_key_pred:
  fixes f :: "'a \<Rightarrow> nat"
  shows "0 < f x \<Longrightarrow> \<forall>y \<in> set xs. 0 < f y \<Longrightarrow>
         insort_key (\<lambda>y. f y - Suc 0) x xs = insort_key f x xs"
  by (induction xs) (auto simp: less_eq_Suc_le diff_le_mono)

lemma sort_key_pred:
  fixes f :: "'a \<Rightarrow> nat"
  shows "\<forall>y \<in> set xs. 0 < f y \<Longrightarrow> sort_key (\<lambda>y. f y - Suc 0) xs = sort_key f xs"
  by (induction xs) (simp_all add: insort_key_pred)

lemma old_coldefs_loop_pk_cols:
  "old_coldefs_loop rows (by_name, pk_cols) = Inr (by_name', pk_cols') \<Longrightarrow>
   pk_cols' = pk_cols @ map (\<lambda>r. (ti_name r, ti_pk r - Suc 0)) (filter (\<lambda>r. ti_pk r \<noteq> 0) rows)"
proof (induction rows arbitrary: by_name pk_cols)
  case Nil
  then show ?case by simp
next
  case (Cons r rows)
  from Cons.prems obtain d where d: "parseDefaultValue (ti_dflt_value r) = Inr d"
    by (cases "parseDefaultValue (ti_dflt_value r)") auto
  let ?by = "obj_set (ti_name r)
               \<lparr>col_name = ti_name r, col_type = ti_type r,
                col_notnull = (if ti_notnull r \<noteq> 0 then True else False),
                col_dflt_value = d\<rparr> by_name"
  let ?pk = "if ti_pk r > 0 then pk_cols @ [(ti_name r, ti_pk r - 1)] else pk_cols"
  from Cons.prems d have "old_coldefs_loop rows (?by, ?pk) = Inr (by_name', pk_cols')"
    by simp
  then have "pk_cols' = ?pk @ map (\<lambda>r. (ti_name r, ti_pk r - Suc 0)) (filter (\<lambda>r. ti_pk r \<noteq> 0) rows)"
    by (rule Cons.IH)
  then show ?case by simp
qed

lemma old_pk_cols_from_table_info_rows:
  assumes "old_coldefs_loop rows (empty_object, []) = Inr (by_name, pk_cols)"
  shows "old_pk_cols_from_table_info pk_cols
           = map ti_name (sort_key ti_pk (filter (\<lambda>r. ti_pk r \<noteq> 0) rows))"
proof -
  let ?xs = "filter (\<lambda>r. ti_pk r \<noteq> 0) rows"
  have pk: "pk_cols = map (\<lambda>r. (ti_name r, ti_pk r - Suc 0)) ?xs"
    using old_coldefs_loop_pk_cols [OF assms] by simp
  have "sort_key (\<lambda>r. ti_pk r - Suc 0) ?xs = sort_key ti_pk ?xs"
    by (rule sort_key_pred) simp
  then show ?thesis
    by (simp add: old_pk_cols_from_table_info_def pk sort_key_map comp_def)
qed

lemma snd_index_list_loop:
  "snd (index_list_loop rows (by_name, old_pk)) =
     (case filter (\<lambda>r. il_origin r = ''pk'') rows of
        [] \<Rightarrow> old_pk
      | r # rs \<Rightarrow> Some \<lparr>idx_name = il_name (last (r # rs)), idx_origin = ''pk'', idx_columns = []\<rparr>)"
  by (induction rows arbitrary: by_name old_pk) (auto simp: Let_def split: list.splits)

lemma await_select_result:
  "await_select view sql w = (r, w') \<Longrightarrow>
   r = view sql (store w) \<and> w' = w\<lparr>issued := issued w @ [Select sql]\<rparr>"
  by (auto simp: await_select_def split: sum.splits)

lemma queryIndexColumns_result:
  "queryIndexColumns select idxdef w = (Inr idxdef', w') \<Longrightarrow>
   \<exists>cols. index_info_rows select (''pragma index_info('' @ quote (Some (idx_name idxdef)) @ '')'')
            (store w) = Inr cols
     \<and> idxdef' = idxdef\<lparr>idx_columns := idx_columns idxdef @ cols\<rparr> \<and> store w' = store w"
  by (auto simp: queryIndexColumns_def io_bind_def io_return_def await_select_def split: sum.splits)

lemma queryIndexColumns_store:
  "queryIndexColumns select idxdef w = (r, w') \<Longrightarrow> store w' = store w"
  by (auto simp: queryIndexColumns_def io_bind_def io_return_def await_select_def split: sum.splits)

lemma queryIndexColumns_primitive_store:
  "queryIndexColumns_primitive select x w = (r, w') \<Longrightarrow> store w' = store w"
  by (cases x)
     (auto simp: queryIndexColumns_primitive_def io_bind_def io_return_def io_throw_def
        await_select_def split: sum.splits if_splits)

lemma query_indexes_loop_store:
  "query_indexes_loop select entries filled w = (r, w') \<Longrightarrow> store w' = store w"
proof (induction entries arbitrary: filled w)
  case Nil
  then show ?case by simp
next
  case (Cons e entries)
  obtain k v where e: "e = (k, v)" by (cases e)
  show ?case
  proof (cases v)
    case (Entry idxdef)
    obtain r1 w1 where q: "queryIndexColumns select idxdef w = (r1, w1)"
      by (cases "queryIndexColumns select idxdef w")
    have s1: "store w1 = store w" using q by (rule queryIndexColumns_store)
    show ?thesis
    proof (cases r1)
      case (Inl err)
      with Cons.prems q e Entry s1 show ?thesis by auto
    next
      case (Inr idxdef')
      with Cons.prems q e Entry
      have "query_indexes_loop select entries (filled @ [(k, idxdef')]) w1 = (r, w')"
        by simp
      then have "store w' = store w1" by (rule Cons.IH)
      with s1 show ?thesis by simp
    qed
  next
    case (Primitive x)
    obtain r1 w1 where q: "queryIndexColumns_primitive select x w = (r1, w1)"
      by (cases "queryIndexColumns_primitive select x w")
    have s1: "store w1 = store w" using q by (rule queryIndexColumns_primitive_store)
    show ?thesis
    proof (cases r1)
      case (Inl err)
      with Cons.prems q e Primitive s1 show ?thesis by auto
    next
      case (Inr u)
      with Cons.prems q e Primitive
      have "query_indexes_loop select entries filled w1 = (r, w')"
        by simp
      then have "store w' = store w1" by (rule Cons.IH)
      with s1 show ?thesis by simp
    qed
  qed
qed

lemma introspect_indexes_unfold:
  "introspect_indexes select tbldef pk_cols w =
     (case index_list_rows select (''pragma index_list('' @ quote (Some (tbl_name tbldef)) @ '')'')
             (store w) of
        Inl e \<Rightarrow>
          (Inl e, w\<lparr>issued := issued w
               @ [Select (''pragma index_list('' @ quote (Some (tbl_name tbldef)) @ '')'')]\<rparr>)
      | Inr rows \<Rightarrow>
          (case query_indexes_loop select
                  (obj_entries idxdef_fields (fst (index_list_loop rows (empty_object, None)))) []
                  (w\<lparr>issued := issued w
                       @ [Select (''pragma index_list('' @ quote (Some (tbl_name tbldef)) @ '')'')]\<rparr>) of
             (Inl e, w2) \<Rightarrow> (Inl e, w2)
           | (Inr filled, w2) \<Rightarrow>
               (case snd (index_list_loop rows (empty_object, None)) of
                  None \<Rightarrow>
                    (Inr (fst (index_list_loop rows (empty_object, None))\<lparr>own_properties := filled\<rparr>,
                          if length pk_cols > 0
                          then Some \<lparr>idx_name = [], idx_origin = ''pk'', idx_columns = pk_cols\<rparr>
                          else None), w2)
                | Some pk \<Rightarrow>
                    (case queryIndexColumns select pk w2 of
                       (Inl e, w3) \<Rightarrow> (Inl e, w3)
                     | (Inr pk', w3) \<Rightarrow>
                         (Inr (fst (index_list_loop rows (empty_object, None))
                                 \<lparr>own_properties := filled\<rparr>, Some pk'), w3)))))"
  by (simp add: introspect_indexes_def io_bind_def io_return_def await_select_def
        split: sum.splits prod.splits option.splits)

lemma introspect_indexes_result:
  assumes run: "introspect_indexes select tbldef pk_cols w = (Inr (old_idxdefs_by_name, old_pk), w')"
    and rows: "index_list_rows select (''pragma index_list('' @ quote (Some (tbl_name tbldef)) @ '')'')
                 (store w) = Inr rows"
  shows "(case snd (index_list_loop rows (empty_object, None)) of
            None \<Rightarrow> old_pk = (if length pk_cols > 0
                               then Some \<lparr>idx_name = [], idx_origin = ''pk'', idx_columns = pk_cols\<rparr>
                               else None)
          | Some pk \<Rightarrow>
              (\<exists>cols. index_info_rows select
                         (''pragma index_info('' @ quote (Some (idx_name pk)) @ '')'') (store w) = Inr cols
                 \<and> old_pk = Some (pk\<lparr>idx_columns := idx_columns pk @ cols\<rparr>)))"
proof -
  let ?w1 = "w\<lparr>issued := issued w @ [Select (''pragma index_list('' @ quote (Some (tbl_name tbldef)) @ '')'')]\<rparr>"
  let ?by0 = "fst (index_list_loop rows (empty_object, None))"
  obtain r2 w2 where q: "query_indexes_loop select (obj_entries idxdef_fields ?by0) [] ?w1 = (r2, w2)"
    by (cases "query_indexes_loop select (obj_entries idxdef_fields ?by0) [] ?w1")
  have s2: "store w2 = store w" using query_indexes_loop_store [OF q] by simp
  from run have run': "(case r2 of
        Inl e \<Rightarrow> (Inl e, w2)
      | Inr filled \<Rightarrow>
          (case snd (index_list_loop rows (empty_object, None)) of
             None \<Rightarrow>
               (Inr (?by0\<lparr>own_properties := filled\<rparr>,
                     if length pk_cols > 0
                     then Some \<lparr>idx_name = [], idx_origin = ''pk'', idx_columns = pk_cols\<rparr>
                     else None), w2)
           | Some pk \<Rightarrow>
               (case queryIndexColumns select pk w2 of
                  (Inl e, w3) \<Rightarrow> (Inl e, w3)
                | (Inr pk', w3) \<Rightarrow> (Inr (?by0\<lparr>own_properties := filled\<rparr>, Some pk'), w3))))
      = (Inr (old_idxdefs_by_name, old_pk), w')"
    by (simp only: introspect_indexes_unfold rows q sum.case prod.case)
  then obtain by1 where r2: "r2 = Inr by1"
    by (cases r2) simp_all
  show ?thesis
  proof (cases "snd (index_list_loop rows (empty_object, None))")
    case None
    with run' r2 show ?thesis by simp
  next
    case (Some pk)
    obtain r3 w3 where q3: "queryIndexColumns select pk w2 = (r3, w3)"
      by (cases "queryIndexColumns select pk w2")
    from run' r2 Some q3 obtain pk' where r3: "r3 = Inr pk'" and old: "old_pk = Some pk'"
      by (cases r3) simp_all
    from queryIndexColumns_result [OF q3 [unfolded r3]] s2
    obtain cols where cols: "index_info_rows select
          (''pragma index_info('' @ quote (Some (idx_name pk)) @ '')'') (store w) = Inr cols"
      and pk': "pk' = pk\<lparr>idx_columns := idx_columns pk @ cols\<rparr>"
      by auto
    show ?thesis
      unfolding Some option.case using cols pk' old by blast
  qed
qed

lemma introspect_indexes_pk_origin:
  assumes "introspect_indexes select tbldef pk_cols w = (Inr (old_idxdefs_by_name, old_pk), w')"
    and "old_pk = Some pk"
  shows "idx_origin pk = ''pk''"
proof -
  obtain r1 where r1: "index_list_rows select
      (''pragma index_list('' @ quote (Some (tbl_name tbldef)) @ '')'') (store w) = r1"
    by simp
  from assms(1) r1 obtain rows where rows: "r1 = Inr rows"
    by (cases r1) (auto simp: introspect_indexes_def io_bind_def await_select_def)
  note res = introspect_indexes_result [OF assms(1) r1 [unfolded rows]]
  show ?thesis
  proof (cases "snd (index_list_loop rows (empty_object, None))")
    case None
    with res assms(2) show ?thesis by (auto split: if_splits)
  next
    case (Some pk0)
    then have "idx_origin pk0 = ''pk''"
      by (auto simp: snd_index_list_loop split: list.splits)
    with res Some assms(2) show ?thesis by auto
  qed
qed

text \<open>
  \<^bold>\<open>C6\<close>. The rows of \<^verbatim>\<open>table_info\<close> having been read and the index list answered
  with \<open>rows\<close>, the introspection succeeds with the live primary key \<open>old_pk\<close>. When the
  index list has an entry of origin \<^verbatim>\<open>pk\<close>, \<open>old_pk\<close> is that entry (the last such) with
  the columns \<^verbatim>\<open>index_info\<close> reports for it, and the positions of \<^verbatim>\<open>table_info\<close> are
  not used. When it has none and some column has a position other than 0, \<open>old_pk\<close> is
  made of exactly the columns with such a position, in the order of their positions.
  Otherwise there is no live primary key.
\<close>

theorem primary_key_from_table_info:
  assumes cols: "old_coldefs_loop old_coldefs (empty_object, []) = Inr (old_coldefs_by_name, pk_cols)"
    and rows: "index_list_rows select (''pragma index_list('' @ quote (Some (tbl_name tbldef)) @ '')'')
                 (store w) = Inr rows"
    and run: "introspect_indexes select tbldef (old_pk_cols_from_table_info pk_cols) w
                = (Inr (old_idxdefs_by_name, old_pk), w')"
  shows "if \<exists>r \<in> set rows. il_origin r = ''pk''
         then \<exists>cols. index_info_rows select
                  (''pragma index_info(''
                     @ quote (Some (il_name (last (filter (\<lambda>r. il_origin r = ''pk'') rows)))) @ '')'')
                  (store w) = Inr cols
              \<and> old_pk = Some \<lparr>idx_name = il_name (last (filter (\<lambda>r. il_origin r = ''pk'') rows)),
                                idx_origin = ''pk'', idx_columns = cols\<rparr>
         else if \<exists>r \<in> set old_coldefs. ti_pk r \<noteq> 0
         then old_pk = Some \<lparr>idx_name = [], idx_origin = ''pk'',
                  idx_columns = map ti_name (sort_key ti_pk (filter (\<lambda>r. ti_pk r \<noteq> 0) old_coldefs))\<rparr>
         else old_pk = None"
proof -
  note res = introspect_indexes_result [OF run rows]
  note names = old_pk_cols_from_table_info_rows [OF cols]
  let ?pks = "filter (\<lambda>r. il_origin r = ''pk'') rows"
  show ?thesis
  proof (cases "\<exists>r \<in> set rows. il_origin r = ''pk''")
    case False
    then have "?pks = []" by (simp add: filter_empty_conv)
    then have "snd (index_list_loop rows (empty_object, None)) = None"
      by (simp add: snd_index_list_loop)
    with res have old: "old_pk = (if length (old_pk_cols_from_table_info pk_cols) > 0
        then Some \<lparr>idx_name = [], idx_origin = ''pk'',
                   idx_columns = old_pk_cols_from_table_info pk_cols\<rparr> else None)"
      by simp
    have len: "length (old_pk_cols_from_table_info pk_cols) > 0 \<longleftrightarrow> (\<exists>r \<in> set old_coldefs. ti_pk r \<noteq> 0)"
      by (simp add: names filter_empty_conv)
    show ?thesis
    proof (cases "\<exists>r \<in> set old_coldefs. ti_pk r \<noteq> 0")
      case some: True
      then have "length (old_pk_cols_from_table_info pk_cols) > 0" by (simp only: len)
      with old have "old_pk = Some \<lparr>idx_name = [], idx_origin = ''pk'',
                   idx_columns = old_pk_cols_from_table_info pk_cols\<rparr>"
        by simp
      then have "old_pk = Some \<lparr>idx_name = [], idx_origin = ''pk'',
          idx_columns = map ti_name (sort_key ti_pk (filter (\<lambda>r. ti_pk r \<noteq> 0) old_coldefs))\<rparr>"
        by (simp only: names)
      then show ?thesis using False some by (simp only: if_False if_True)
    next
      case none: False
      then have "\<not> length (old_pk_cols_from_table_info pk_cols) > 0" by (simp only: len not_False_eq_True)
      with old have "old_pk = None" by simp
      then show ?thesis using False none by (simp only: if_False)
    qed
  next
    case True
    then obtain r rs where pks: "?pks = r # rs"
      by (cases ?pks) (auto simp: filter_empty_conv)
    have "snd (index_list_loop rows (empty_object, None))
        = Some \<lparr>idx_name = il_name (last ?pks), idx_origin = ''pk'', idx_columns = []\<rparr>"
      by (simp add: snd_index_list_loop pks)
    from res [unfolded this] have
      "\<exists>cols. index_info_rows select
                  (''pragma index_info('' @ quote (Some (il_name (last ?pks))) @ '')'')
                  (store w) = Inr cols
              \<and> old_pk = Some \<lparr>idx_name = il_name (last ?pks), idx_origin = ''pk'', idx_columns = cols\<rparr>"
      by simp
    then show ?thesis using True by (simp only: if_True)
  qed
qed

theorem primary_key_from_table_info_witness:
  "introspect_indexes unlisted_pk_select two_index_table
       (old_pk_cols_from_table_info [(''b'', 1), (''a'', 0)]) \<lparr>store = (), issued = []\<rparr>
     = (Inr (empty_object, Some \<lparr>idx_name = [], idx_origin = ''pk'', idx_columns = [''a'', ''b'']\<rparr>),
        \<lparr>store = (), issued = [Select (''pragma index_list('' @ [apos] @ ''t'' @ [apos] @ '')'')]\<rparr>)
   \<and> map ti_name (sort_key ti_pk (filter (\<lambda>r. ti_pk r \<noteq> 0) composite_key_rows)) = [''a'', ''b'']
   \<and> introspect_indexes listed_pk_select two_index_table
       (old_pk_cols_from_table_info [(''b'', 1), (''a'', 0)]) \<lparr>store = (), issued = []\<rparr>
     = (Inr (empty_object, Some \<lparr>idx_name = ''sqlite_autoindex_t_1'', idx_origin = ''pk'',
                       idx_columns = [''a'', ''b'']\<rparr>),
        \<lparr>store = (),
         issued = [Select (''pragma index_list('' @ [apos] @ ''t'' @ [apos] @ '')''),
                   Select (''pragma index_info('' @ [apos] @ ''sqlite_autoindex_t_1'' @ [apos] @ '')'')]\<rparr>)"
proof -
  let ?w = "\<lparr>store = (), issued = []\<rparr> :: unit world"
  let ?by = "\<lparr>own_properties =
       [(''b'', \<lparr>col_name = ''b'', col_type = ''TEXT'', col_notnull = True, col_dflt_value = Some []\<rparr>),
        (''a'', \<lparr>col_name = ''a'', col_type = ''TEXT'', col_notnull = True, col_dflt_value = Some []\<rparr>),
        (''c'', \<lparr>col_name = ''c'', col_type = ''TEXT'', col_notnull = False, col_dflt_value = None\<rparr>)],
     prototype = None\<rparr>"
  have cols: "old_coldefs_loop composite_key_rows (empty_object, []) = Inr (?by, [(''b'', 1), (''a'', 0)])"
    by code_simp
  have rows1: "index_list_rows unlisted_pk_select
      (''pragma index_list('' @ quote (Some (tbl_name two_index_table)) @ '')'') (store ?w) = Inr []"
    by (simp add: unlisted_pk_select_def)
  have run1: "introspect_indexes unlisted_pk_select two_index_table
       (old_pk_cols_from_table_info [(''b'', 1), (''a'', 0)]) ?w
     = (Inr (empty_object, Some \<lparr>idx_name = [], idx_origin = ''pk'', idx_columns = [''a'', ''b'']\<rparr>),
        \<lparr>store = (), issued = [Select (''pragma index_list('' @ [apos] @ ''t'' @ [apos] @ '')'')]\<rparr>)"
    by code_simp
  have rows2: "index_list_rows listed_pk_select
      (''pragma index_list('' @ quote (Some (tbl_name two_index_table)) @ '')'') (store ?w)
      = Inr [\<lparr>il_name = ''sqlite_autoindex_t_1'', il_origin = ''pk'', il_unique = Some 1\<rparr>]"
    by (simp add: listed_pk_select_def)
  have run2: "introspect_indexes listed_pk_select two_index_table
       (old_pk_cols_from_table_info [(''b'', 1), (''a'', 0)]) ?w
     = (Inr (empty_object, Some \<lparr>idx_name = ''sqlite_autoindex_t_1'', idx_origin = ''pk'',
                       idx_columns = [''a'', ''b'']\<rparr>),
        \<lparr>store = (),
         issued = [Select (''pragma index_list('' @ [apos] @ ''t'' @ [apos] @ '')''),
                   Select (''pragma index_info('' @ [apos] @ ''sqlite_autoindex_t_1'' @ [apos] @ '')'')]\<rparr>)"
    by code_simp
  have pos: "\<exists>r \<in> set composite_key_rows. ti_pk r \<noteq> 0"
    by (simp add: composite_key_rows_def)
  from primary_key_from_table_info [OF cols rows1 run1] pos
  have "map ti_name (sort_key ti_pk (filter (\<lambda>r. ti_pk r \<noteq> 0) composite_key_rows)) = [''a'', ''b'']"
    by simp
  with run1 run2 show ?thesis by simp
qed

section \<open>The decision between rewrite and incremental change\<close>

subsection \<open>Dictionaries whose prototype has not been replaced\<close>



lemma prototype_obj_set:
  "k \<noteq> ''__proto__'' \<Longrightarrow> prototype (obj_set k v obj) = prototype obj"
  by (simp add: obj_set_def)








lemma obj_keys_plain:
  "prototype obj = None \<Longrightarrow> obj_keys props obj = map fst (own_properties obj)"
  by (simp add: obj_keys_def inherited_fields_def)











lemma prototype_old_coldefs_loop:
  "old_coldefs_loop rows (by_name, pk_cols) = Inr (by_name', pk_cols') \<Longrightarrow>
   ''__proto__'' \<notin> set (map ti_name rows) \<Longrightarrow> prototype by_name' = prototype by_name"
proof (induction rows arbitrary: by_name pk_cols)
  case Nil
  then show ?case by simp
next
  case (Cons r rows)
  from Cons.prems(1) obtain d where d: "parseDefaultValue (ti_dflt_value r) = Inr d"
    by (cases "parseDefaultValue (ti_dflt_value r)") auto
  let ?by = "obj_set (ti_name r)
               \<lparr>col_name = ti_name r, col_type = ti_type r,
                col_notnull = (if ti_notnull r \<noteq> 0 then True else False),
                col_dflt_value = d\<rparr> by_name"
  let ?pk = "if ti_pk r > 0 then pk_cols @ [(ti_name r, ti_pk r - 1)] else pk_cols"
  from Cons.prems(1) d have "old_coldefs_loop rows (?by, ?pk) = Inr (by_name', pk_cols')"
    by simp
  moreover from Cons.prems(2) have "''__proto__'' \<notin> set (map ti_name rows)" by simp
  ultimately have "prototype by_name' = prototype ?by" by (rule Cons.IH)
  moreover from Cons.prems(2) have "ti_name r \<noteq> ''__proto__''" by auto
  ultimately show ?case by (simp add: prototype_obj_set)
qed




text \<open>On the table \<^verbatim>\<open>item\<close> as created, the key column differs from its declaration in
  \<^verbatim>\<open>notnull\<close> and in its default, and the flag stays unset.\<close>

lemma keyed_table_exempt_column:
  "compare_columns_loop (snd (new_indexes_loop (tbl_indexes keyed_table) (empty_object, None)))
       keyed_live_columns
       (obj_entries coldef_fields (new_coldefs_loop (tbl_columns keyed_table) empty_object))
       ([], False, [])
     = Inr ([''id'', ''label''], False, [])"
  by code_simp



subsection \<open>The primary-key and the foreign-key stage\<close>

text \<open>
  The two later stages set the flag when the primary key is present on one side
  only or has another origin or column list, and when the foreign keys differ in
  number or a live one has no declared match of the same target, actions and
  references. An action that is absent reads as \<^verbatim>\<open>NO ACTION\<close>.
\<close>

lemma getFKAction_simps:
  "getFKAction None = ''NO ACTION''" "getFKAction (Some s) = s"
  by (simp_all add: getFKAction_def)

lemma doIndexesMatch_iff:
  "doIndexesMatch idxdef1 idxdef2 \<longleftrightarrow>
     idx_origin idxdef1 = idx_origin idxdef2 \<and> idx_columns idxdef1 = idx_columns idxdef2"
  by (auto simp: doIndexesMatch_def list_all2_eq [symmetric])

lemma reference_eq_iff:
  "ref_from r1 = ref_from r2 \<and> ref_to r1 = ref_to r2 \<longleftrightarrow> r1 = (r2 :: reference)"
  by (cases r1, cases r2) auto

lemma references_match_iff:
  "list_all2 (\<lambda>r1 r2. \<not> (ref_from r1 \<noteq> ref_from r2 \<or> ref_to r1 \<noteq> ref_to r2)) rs1 rs2
     \<longleftrightarrow> rs1 = (rs2 :: reference list)"
proof -
  have "(\<lambda>r1 r2. \<not> (ref_from r1 \<noteq> ref_from r2 \<or> ref_to r1 \<noteq> ref_to r2))
      = ((=) :: reference \<Rightarrow> reference \<Rightarrow> bool)"
    by (intro ext) (simp add: reference_eq_iff)
  then show ?thesis by (simp only: list.rel_eq)
qed

lemma doForeignKeysMatch_iff:
  "doForeignKeysMatch fkdef1 fkdef2 \<longleftrightarrow>
     fk_table fkdef1 = fk_table fkdef2
     \<and> getFKAction (fk_on_update fkdef1) = getFKAction (fk_on_update fkdef2)
     \<and> getFKAction (fk_on_delete fkdef1) = getFKAction (fk_on_delete fkdef2)
     \<and> fk_references fkdef1 = fk_references fkdef2"
  unfolding doForeignKeysMatch_def references_match_iff by auto

lemma primary_key_stage_iff:
  "primary_key_stage need old_pk new_pk \<longleftrightarrow>
     need \<or> (old_pk = None) \<noteq> (new_pk = None)
     \<or> (\<exists>opk npk. old_pk = Some opk \<and> new_pk = Some npk \<and> \<not> doIndexesMatch opk npk)"
  by (cases old_pk; cases new_pk) (auto simp: primary_key_stage_def)

lemma match_found_loop_iff:
  "match_found_loop old_fk fks \<longleftrightarrow> (\<exists>fkdef \<in> set fks. doForeignKeysMatch old_fk fkdef)"
  by (induction fks) auto

lemma unmatched_loop_iff:
  "unmatched_loop old_fks fks need \<longleftrightarrow>
     need \<or> (\<exists>old_fk \<in> set old_fks. \<not> match_found_loop old_fk fks)"
  by (induction old_fks arbitrary: need) auto

lemma foreign_key_stage_iff:
  "foreign_key_stage need old_fks fks \<longleftrightarrow>
     need \<or> length old_fks \<noteq> length fks
     \<or> (\<exists>old_fk \<in> set old_fks. \<not> (\<exists>fkdef \<in> set fks. doForeignKeysMatch old_fk fkdef))"
  by (auto simp: foreign_key_stage_def unmatched_loop_iff match_found_loop_iff)

section \<open>A column added under an inherited name\<close>

text \<open>
  \<^bold>\<open>C4\<close>. A change that consists only of added or removed columns is to take the
  incremental path. The live table \<^verbatim>\<open>t\<close> has the single column \<^verbatim>\<open>a\<close>, and the
  declaration adds one column to it. When the added column is named \<^verbatim>\<open>b\<close>, the run
  issues the single statement \<^verbatim>\<open>alter table t add column b ...\<close>. When it is named
  \<^verbatim>\<open>constructor\<close>, the test \<^verbatim>\<open>k in old_coldefs_by_name\<close> of line 283 holds, the name
  being inherited from \<^verbatim>\<open>Object.prototype\<close>: the column loop takes the column for
  one present on both sides, compares its declared type with a value that has none, and
  sets the flag. The run rewrites the table: it creates \<^verbatim>\<open>t_new_7\<close> and drops \<^verbatim>\<open>t\<close>
  (the copy, which would select a column the live table does not have, and the renaming
  are the statements at the odd positions, which \<open>executeSQLCommands\<close> skips).
\<close>

theorem added_column_with_inherited_name_is_rewritten:
  "updateSchemaForSingleTable (JSObject (table_with_added_column ''b''))
        (JSFunction one_column_select) (JSFunction accepting_execute) 7 \<lparr>store = (), issued = []\<rparr>
     = (Inr (),
        \<lparr>store = (),
         issued =
           [Select ''pragma foreign_keys'',
            Select (''pragma table_info('' @ [apos] @ ''t'' @ [apos] @ '')''),
            Select (''pragma index_list('' @ [apos] @ ''t'' @ [apos] @ '')''),
            Select (''pragma foreign_key_list('' @ [apos] @ ''t'' @ [apos] @ '')''),
            Execute (''alter table t add column b TEXT NOT NULL DEFAULT '' @ [apos, apos])]\<rparr>)
   \<and> obj_in coldef_fields ''constructor''
        \<lparr>own_properties =
           [(''a'', \<lparr>col_name = ''a'', col_type = ''TEXT'', col_notnull = True,
                     col_dflt_value = Some []\<rparr>)],
         prototype = None\<rparr>
   \<and> compare_columns_loop None
        \<lparr>own_properties =
           [(''a'', \<lparr>col_name = ''a'', col_type = ''TEXT'', col_notnull = True,
                     col_dflt_value = Some []\<rparr>)],
         prototype = None\<rparr>
        (obj_entries coldef_fields
           (new_coldefs_loop (tbl_columns (table_with_added_column ''constructor'')) empty_object))
        ([], False, [])
     = Inr ([''a'', ''constructor''], True, [])
   \<and> updateSchemaForSingleTable (JSObject (table_with_added_column ''constructor''))
        (JSFunction one_column_select) (JSFunction accepting_execute) 7 \<lparr>store = (), issued = []\<rparr>
     = (Inr (),
        \<lparr>store = (),
         issued =
           [Select ''pragma foreign_keys'',
            Select (''pragma table_info('' @ [apos] @ ''t'' @ [apos] @ '')''),
            Select (''pragma index_list('' @ [apos] @ ''t'' @ [apos] @ '')''),
            Select (''pragma foreign_key_list('' @ [apos] @ ''t'' @ [apos] @ '')''),
            Execute (''create table t_new_7 ( a TEXT NOT NULL DEFAULT ''
                       @ [apos, apos, CHR '','', newline]
                       @ '' constructor TEXT NOT NULL DEFAULT '' @ [apos, apos, newline] @ '')''),
            Execute ''drop table t'']\<rparr>)"
  by code_simp

theorem added_column_with_inherited_name_is_rewritten_witness:
  "Execute ''drop table t''
     \<in> set (issued (snd (updateSchemaForSingleTable
                (JSObject (table_with_added_column ''constructor''))
                (JSFunction one_column_select) (JSFunction accepting_execute) 7
                \<lparr>store = (), issued = []\<rparr>)))
   \<and> Execute ''drop table t''
     \<notin> set (issued (snd (updateSchemaForSingleTable
                (JSObject (table_with_added_column ''b''))
                (JSFunction one_column_select) (JSFunction accepting_execute) 7
                \<lparr>store = (), issued = []\<rparr>)))"
  using added_column_with_inherited_name_is_rewritten by simp

section \<open>The calls issued by the parts of a run\<close>

lemma issues_onlyI:
  "(\<And>w r w'. m w = (r, w') \<Longrightarrow> \<exists>calls. issued w' = issued w @ calls \<and> list_all P calls)
   \<Longrightarrow> issues_only P m"
  by (simp add: issues_only_def)

lemma issues_onlyD:
  "issues_only P m \<Longrightarrow> m w = (r, w') \<Longrightarrow> \<exists>calls. issued w' = issued w @ calls \<and> list_all P calls"
  by (simp add: issues_only_def)

lemma issues_only_return: "issues_only P (io_return x)"
  by (rule issues_onlyI) (simp add: io_return_def)

lemma issues_only_throw: "issues_only P (io_throw e)"
  by (rule issues_onlyI) (simp add: io_throw_def)

lemma issues_only_bind:
  assumes m: "issues_only P m" and f: "\<And>x. issues_only P (f x)"
  shows "issues_only P (io_bind m f)"
proof (rule issues_onlyI)
  fix w r w'
  assume run: "io_bind m f w = (r, w')"
  obtain r1 w1 where m1: "m w = (r1, w1)" by (cases "m w")
  from issues_onlyD [OF m m1] obtain cs1 where cs1: "issued w1 = issued w @ cs1" "list_all P cs1"
    by blast
  show "\<exists>calls. issued w' = issued w @ calls \<and> list_all P calls"
  proof (cases r1)
    case (Inl e)
    with run m1 have "w' = w1" by (simp add: io_bind_def)
    with cs1 show ?thesis by blast
  next
    case (Inr x)
    with run m1 have "f x w1 = (r, w')" by (simp add: io_bind_def)
    from issues_onlyD [OF f this] obtain cs2 where "issued w' = issued w1 @ cs2" "list_all P cs2"
      by blast
    with cs1 have "issued w' = issued w @ (cs1 @ cs2) \<and> list_all P (cs1 @ cs2)" by simp
    then show ?thesis by blast
  qed
qed

lemma issues_only_select: "P (Select sql) \<Longrightarrow> issues_only P (await_select view sql)"
  by (rule issues_onlyI) (auto simp: await_select_def split: sum.splits)

lemma issues_only_execute: "P (Execute sql) \<Longrightarrow> issues_only P (await_execute execute sql)"
  by (rule issues_onlyI) (auto simp: await_execute_def split: sum.splits)

lemma issues_only_executeSQLCommands_from:
  "\<forall>sql \<in> set cmdlist. P (Execute sql) \<Longrightarrow>
   executeSQLCommands_from execute cmdlist cmdi w = (r, w') \<Longrightarrow>
   \<exists>calls. issued w' = issued w @ calls \<and> list_all P calls"
proof (induction execute cmdlist cmdi w rule: executeSQLCommands_from.induct)
  case (1 execute cmdlist cmdi w)
  show ?case
  proof (cases "cmdi < length cmdlist")
    case False
    with "1.prems" show ?thesis
      by (simp add: executeSQLCommands_from.simps [of execute cmdlist cmdi])
  next
    case True
    then have P: "P (Execute (cmdlist ! cmdi))" using "1.prems"(1) by simp
    obtain r1 w1 where e1: "await_execute execute (cmdlist ! cmdi) w = (r1, w1)"
      by (cases "await_execute execute (cmdlist ! cmdi) w")
    have "issues_only P (await_execute execute (cmdlist ! cmdi))"
      using P by (rule issues_only_execute)
    from issues_onlyD [OF this e1]
    obtain cs1 where cs1: "issued w1 = issued w @ cs1" "list_all P cs1" by blast
    show ?thesis
    proof (cases r1)
      case (Inl e)
      with True e1 "1.prems"(2) have "w' = w1"
        by (simp add: executeSQLCommands_from.simps [of execute cmdlist cmdi])
      with cs1 show ?thesis by blast
    next
      case (Inr u)
      with True e1 "1.prems"(2)
      have "executeSQLCommands_from execute cmdlist (cmdi + 1 + 1) w1 = (r, w')"
        by (simp add: executeSQLCommands_from.simps [of execute cmdlist cmdi])
      from "1.IH" [OF True e1 [symmetric] Inr "1.prems"(1) this]
      obtain cs2 where "issued w' = issued w1 @ cs2" "list_all P cs2" by blast
      with cs1 have "issued w' = issued w @ (cs1 @ cs2) \<and> list_all P (cs1 @ cs2)" by simp
      then show ?thesis by blast
    qed
  qed
qed

lemma issues_only_executeSQLCommands:
  "\<forall>sql \<in> set cmdlist. P (Execute sql) \<Longrightarrow> issues_only P (executeSQLCommands execute cmdlist)"
  unfolding executeSQLCommands_def
  by (rule issues_onlyI) (rule issues_only_executeSQLCommands_from)


lemma plain_Cons [simp]: "plain (c # cs) = (c \<noteq> CHR ''p'')"
  by (simp add: plain_def)

lemma plain_append: "plain s \<Longrightarrow> plain (s @ t)"
  by (simp add: plain_def)

lemma not_pragma_simps [simp]:
  "not_pragma (Select sql) = True" "not_pragma (Execute sql) = plain sql"
  by (simp_all add: not_pragma_def)

lemma plain_create_columns_loop:
  "plain sql \<Longrightarrow> plain (fst (create_columns_loop spk cols (sql, sep, pk)))"
  by (induction cols arbitrary: sql sep pk) (simp_all add: plain_append)

lemma plain_create_columns_loop_result:
  "create_columns_loop spk cols (sql, sep, pk) = (sql', sep', pk') \<Longrightarrow> plain sql \<Longrightarrow> plain sql'"
  using plain_create_columns_loop [of sql spk cols sep pk] by simp

lemma plain_create_fks_loop:
  "plain sql \<Longrightarrow> plain (fst (create_fks_loop fks (sql, sep)))"
  by (induction fks arbitrary: sql sep) (simp_all add: plain_append)

lemma plain_create_fks_loop_result:
  "create_fks_loop fks (sql, sep) = (sql', sep') \<Longrightarrow> plain sql \<Longrightarrow> plain sql'"
  using plain_create_fks_loop [of sql fks sep] by simp

lemma plain_getCreateTableSQL: "plain (getCreateTableSQL tbldef tableName)"
proof -
  obtain pk0 spk where a: "find_pk_loop (tbl_indexes tbldef) (None, None) = (pk0, spk)"
    by (cases "find_pk_loop (tbl_indexes tbldef) (None, None)")
  obtain sql1 sep1 pk where b: "create_columns_loop spk (tbl_columns tbldef)
      (''create table '' @ tableName @ '' ('', [], pk0) = (sql1, sep1, pk)"
    by (cases "create_columns_loop spk (tbl_columns tbldef)
      (''create table '' @ tableName @ '' ('', [], pk0)") auto
  have p1: "plain sql1"
    by (rule plain_create_columns_loop_result [OF b]) simp
  obtain sql2 sep2 where c: "(case pk of
        None \<Rightarrow> (sql1, sep1)
      | Some p \<Rightarrow>
          (sql1 @ sep1 @ '' primary key ('' @ join '', '' (idx_columns p) @ '')'',
           if sep1 = [] then [CHR '','', newline] else sep1)) = (sql2, sep2)"
    by (cases pk) auto
  have p2: "plain sql2" using c p1 by (cases pk) (auto simp: plain_append)
  obtain sql3 sep3 where d: "create_fks_loop (tbl_foreign_keys tbldef) (sql2, sep2) = (sql3, sep3)"
    by (cases "create_fks_loop (tbl_foreign_keys tbldef) (sql2, sep2)")
  have "plain sql3"
    using d p2 by (rule plain_create_fks_loop_result)
  then have "plain (sql3 @ [newline] @ '')'')" by (rule plain_append)
  then show ?thesis
    unfolding getCreateTableSQL_def a b c d prod.case .
qed

lemma plain_indexDefinitionToSQL:
  "indexDefinitionToSQL idxdef tableName \<noteq> [] \<Longrightarrow> plain (indexDefinitionToSQL idxdef tableName)"
  by (auto simp: indexDefinitionToSQL_def)

lemma plain_getCreateIndexSQLs_loop:
  "list_all plain isqls \<Longrightarrow> list_all plain (getCreateIndexSQLs_loop tableName idxs isqls)"
  by (induction idxs arbitrary: isqls) (simp_all add: Let_def plain_indexDefinitionToSQL)

lemma plain_getCreateIndexSQLs: "list_all plain (getCreateIndexSQLs tbldef tableName)"
  by (simp add: getCreateIndexSQLs_def plain_getCreateIndexSQLs_loop)

lemma plain_insert_on_create_loop:
  "plain sql \<Longrightarrow> plain (fst (insert_on_create_loop ioc (sql, sqlend, sep)))"
  by (induction ioc arbitrary: sql sqlend sep) (auto simp: plain_append)

lemma plain_insert_on_create_loop_result:
  "insert_on_create_loop ioc (sql, sqlend, sep) = (sql', sqlend', sep') \<Longrightarrow> plain sql \<Longrightarrow> plain sql'"
  using plain_insert_on_create_loop [of sql ioc sqlend sep] by simp

lemma plain_insert_on_create_sql: "plain (insert_on_create_sql tbldef ioc)"
proof -
  obtain sql sqlend sep where a: "insert_on_create_loop ioc
      (''insert into '' @ tbl_name tbldef @ '' ('', '') values ('', []) = (sql, sqlend, sep)"
    using prod_cases3 by blast
  have "plain sql" by (rule plain_insert_on_create_loop_result [OF a]) simp
  then have "plain (sql @ sqlend @ '')'')" by (rule plain_append)
  then show ?thesis unfolding insert_on_create_sql_def a prod.case .
qed

lemma plain_iine_identifiers_loop:
  "plain sqlpart1 \<Longrightarrow>
   plain (fst (iine_identifiers_loop ids (sqlpart1, sqlpart2, sqlpart3, sepcomma, sepand)))"
  by (induction ids arbitrary: sqlpart1 sqlpart2 sqlpart3 sepcomma sepand)
     (auto simp: plain_append Let_def)

lemma plain_iine_identifiers_loop_result:
  "iine_identifiers_loop ids (sqlpart1, sqlpart2, sqlpart3, sepcomma, sepand) = (p1, p2, p3, sc, sa)
   \<Longrightarrow> plain sqlpart1 \<Longrightarrow> plain p1"
  using plain_iine_identifiers_loop [of sqlpart1 ids sqlpart2 sqlpart3 sepcomma sepand] by simp

lemma plain_iine_other_values_loop:
  "plain sqlpart1 \<Longrightarrow>
   plain (fst (iine_other_values_loop ids others (sqlpart1, sqlpart2, sepcomma)))"
  by (induction others arbitrary: sqlpart1 sqlpart2 sepcomma) (auto simp: plain_append Let_def)

lemma plain_iine_other_values_loop_result:
  "iine_other_values_loop ids others (sqlpart1, sqlpart2, sepcomma) = (p1, p2, sc)
   \<Longrightarrow> plain sqlpart1 \<Longrightarrow> plain p1"
  using plain_iine_other_values_loop [of sqlpart1 ids others sqlpart2 sepcomma] by simp

lemma plain_insert_if_not_exists_sql:
  assumes "insert_if_not_exists_sql tbldef entry = Some sql"
  shows "plain sql"
proof -
  obtain p1 p2 p3 sc sa where a: "iine_identifiers_loop (identifiers entry)
      (''insert into '' @ tbl_name tbldef @ '' ('', '') select '',
       '' where not exists (select 1 from '' @ tbl_name tbldef @ '' where '', [], []) = (p1, p2, p3, sc, sa)"
    using prod_cases5 by blast
  have q1: "plain p1"
    by (rule plain_iine_identifiers_loop_result [OF a]) simp
  obtain p1' p2' sc' where b: "iine_other_values_loop (identifiers entry) (other_values entry)
      (p1, p2, sc) = (p1', p2', sc')"
    using prod_cases3 by blast
  have "plain p1'"
    using b q1 by (rule plain_iine_other_values_loop_result)
  then have "plain (p1' @ p2' @ p3 @ '')'')" by (rule plain_append)
  moreover from assms have "sql = p1' @ p2' @ p3 @ '')''"
    unfolding insert_if_not_exists_sql_def a b prod.case by (simp split: if_splits)
  ultimately show ?thesis by simp
qed

lemma plain_assignments_loop:
  "plain sql \<Longrightarrow> plain (fst (assignments_loop nextsep xs (sql, sep)))"
  by (induction xs arbitrary: sql sep) (auto simp: plain_append)

lemma plain_assignments_loop_result:
  "assignments_loop nextsep xs (sql, sep) = (sql', sep') \<Longrightarrow> plain sql \<Longrightarrow> plain sql'"
  using plain_assignments_loop [of sql nextsep xs sep] by simp

lemma plain_update_if_exists_sql:
  assumes "update_if_exists_sql tbldef entry = Some sql"
  shows "plain sql"
proof -
  obtain s1 sep1 where a: "assignments_loop '', '' (other_values entry)
      (''update '' @ tbl_name tbldef @ '' set '', []) = (s1, sep1)"
    by (cases "assignments_loop '', '' (other_values entry) (''update '' @ tbl_name tbldef @ '' set '', [])")
  have q1: "plain s1"
    by (rule plain_assignments_loop_result [OF a]) simp
  obtain s2 sep2 where b: "assignments_loop '' and '' (identifiers entry) (s1 @ '' where '', [])
      = (s2, sep2)"
    by (cases "assignments_loop '' and '' (identifiers entry) (s1 @ '' where '', [])")
  have "plain s2"
    by (rule plain_assignments_loop_result [OF b]) (rule plain_append [OF q1])
  moreover from assms have "sql = s2"
    unfolding update_if_exists_sql_def a b prod.case by (simp split: if_splits)
  ultimately show ?thesis by simp
qed

lemma plain_delete_if_exists_sql:
  assumes "delete_if_exists_sql tbldef entry = Some sql"
  shows "plain sql"
proof -
  obtain s1 sep1 where a: "assignments_loop '' and '' entry
      (''delete from '' @ tbl_name tbldef @ '' where '', []) = (s1, sep1)"
    by (cases "assignments_loop '' and '' entry (''delete from '' @ tbl_name tbldef @ '' where '', [])")
  have "plain s1"
    by (rule plain_assignments_loop_result [OF a]) simp
  moreover from assms have "sql = s1"
    unfolding delete_if_exists_sql_def a prod.case by (simp split: if_splits)
  ultimately show ?thesis by simp
qed

lemma set_map_filter: "set (List.map_filter f xs) = {y. \<exists>x \<in> set xs. f x = Some y}"
  by (induction xs) (auto split: option.splits)

lemma plain_seed_statements: "sql \<in> set (seed_statements tbldef) \<Longrightarrow> plain sql"
  by (auto simp: seed_statements_def set_map_filter
        intro: plain_insert_if_not_exists_sql plain_update_if_exists_sql plain_delete_if_exists_sql)

lemma issues_only_handleDataTransformations:
  assumes "\<forall>sql \<in> set (seed_statements tbldef). P (Execute sql)"
  shows "issues_only P (handleDataTransformations execute tbldef)"
  unfolding handleDataTransformations_def
  using assms
  by (intro issues_only_bind issues_only_executeSQLCommands) (simp_all add: seed_statements_def)

lemma not_pragma_handleDataTransformations:
  "issues_only not_pragma (handleDataTransformations execute tbldef)"
  by (rule issues_only_handleDataTransformations) (simp add: plain_seed_statements)

lemma not_pragma_createMissingTable:
  "issues_only not_pragma (createMissingTable execute tbldef)"
  unfolding createMissingTable_def
  by (intro issues_only_bind issues_only_executeSQLCommands not_pragma_handleDataTransformations)
     (simp_all add: plain_getCreateTableSQL plain_insert_on_create_sql
        plain_getCreateIndexSQLs [unfolded list_all_iff])


lemma issues_only_if:
  "issues_only P a \<Longrightarrow> issues_only P b \<Longrightarrow> issues_only P (if c then a else b)"
  by simp

lemma issues_only_case_prod:
  "(\<And>a b. issues_only P (f a b)) \<Longrightarrow> issues_only P (case x of (a, b) \<Rightarrow> f a b)"
  by (cases x) simp

lemma issues_only_queryIndexColumns:
  "\<forall>sql. P (Select sql) \<Longrightarrow> issues_only P (queryIndexColumns select idxdef)"
  unfolding queryIndexColumns_def
  by (intro issues_only_bind issues_only_select issues_only_return) simp

lemma issues_only_queryIndexColumns_primitive:
  "\<forall>sql. P (Select sql) \<Longrightarrow> issues_only P (queryIndexColumns_primitive select x)"
  unfolding queryIndexColumns_primitive_def
  by (cases x)
     (auto intro!: issues_only_bind issues_only_select issues_only_return issues_only_throw
        issues_only_if)

lemma issues_only_query_indexes_loop:
  assumes sel: "\<forall>sql. P (Select sql)"
  shows "issues_only P (query_indexes_loop select entries filled)"
proof (rule issues_onlyI)
  fix w r w'
  assume "query_indexes_loop select entries filled w = (r, w')"
  then show "\<exists>calls. issued w' = issued w @ calls \<and> list_all P calls"
  proof (induction entries arbitrary: filled w)
    case Nil
    then show ?case by simp
  next
    case (Cons e entries)
    obtain k v where e: "e = (k, v)" by (cases e)
    show ?case
    proof (cases v)
      case (Entry idxdef)
      obtain r1 w1 where q: "queryIndexColumns select idxdef w = (r1, w1)"
        by (cases "queryIndexColumns select idxdef w")
      from issues_onlyD [OF issues_only_queryIndexColumns [OF sel] q]
      obtain cs1 where cs1: "issued w1 = issued w @ cs1" "list_all P cs1" by blast
      show ?thesis
      proof (cases r1)
        case (Inl err)
        with Cons.prems q e Entry have "w' = w1" by simp
        with cs1 show ?thesis by blast
      next
        case (Inr idxdef')
        with Cons.prems q e Entry
        have "query_indexes_loop select entries (filled @ [(k, idxdef')]) w1 = (r, w')" by simp
        from Cons.IH [OF this] obtain cs2 where "issued w' = issued w1 @ cs2" "list_all P cs2"
          by blast
        with cs1 have "issued w' = issued w @ (cs1 @ cs2) \<and> list_all P (cs1 @ cs2)" by simp
        then show ?thesis by blast
      qed
    next
      case (Primitive x)
      obtain r1 w1 where q: "queryIndexColumns_primitive select x w = (r1, w1)"
        by (cases "queryIndexColumns_primitive select x w")
      from issues_onlyD [OF issues_only_queryIndexColumns_primitive [OF sel] q]
      obtain cs1 where cs1: "issued w1 = issued w @ cs1" "list_all P cs1" by blast
      show ?thesis
      proof (cases r1)
        case (Inl err)
        with Cons.prems q e Primitive have "w' = w1" by simp
        with cs1 show ?thesis by blast
      next
        case (Inr u)
        with Cons.prems q e Primitive
        have "query_indexes_loop select entries filled w1 = (r, w')" by simp
        from Cons.IH [OF this] obtain cs2 where "issued w' = issued w1 @ cs2" "list_all P cs2"
          by blast
        with cs1 have "issued w' = issued w @ (cs1 @ cs2) \<and> list_all P (cs1 @ cs2)" by simp
        then show ?thesis by blast
      qed
    qed
  qed
qed

lemma issues_only_introspect_indexes:
  assumes sel: "\<forall>sql. P (Select sql)"
  shows "issues_only P (introspect_indexes select tbldef pk_cols)"
  unfolding introspect_indexes_def
  by (intro issues_only_bind issues_only_select issues_only_case_prod issues_only_return
        issues_only_query_indexes_loop [OF sel])
     (auto simp: sel split: option.splits
        intro!: issues_only_bind issues_only_return issues_only_queryIndexColumns [OF sel])

lemma issues_only_introspect_foreign_keys:
  assumes sel: "\<forall>sql. P (Select sql)"
  shows "issues_only P (introspect_foreign_keys select tbldef)"
  unfolding introspect_foreign_keys_def
  by (intro issues_only_bind issues_only_select issues_only_return) (simp add: sel)

lemma plain_rewrite_sqls: "sql \<in> set (rewrite_sqls tbldef now common) \<Longrightarrow> plain sql"
  using plain_getCreateIndexSQLs [unfolded list_all_iff]
  by (auto simp: rewrite_sqls_def Let_def plain_getCreateTableSQL)

lemma plain_drop_indexes_loop:
  "list_all plain acc \<Longrightarrow> list_all plain (drop_indexes_loop new keys acc)"
  by (induction keys arbitrary: acc) auto

lemma plain_indexDefinitionToSQL_value:
  "indexDefinitionToSQL_value ni tableName = Inr isql \<Longrightarrow> isql \<noteq> [] \<Longrightarrow> plain isql"
  by (auto simp: indexDefinitionToSQL_value_def plain_indexDefinitionToSQL
        split: propval.splits jsprim.splits)

lemma plain_changed_indexes_loop:
  "changed_indexes_loop tbldef old entries (drops, creates) = Inr (drops', creates') \<Longrightarrow>
   list_all plain drops \<Longrightarrow> list_all plain creates \<Longrightarrow>
   list_all plain drops' \<and> list_all plain creates'"
proof (induction entries arbitrary: drops creates)
  case Nil
  then show ?case by simp
next
  case (Cons e entries)
  obtain k ni where e: "e = (k, ni)" by (cases e)
  obtain r where isql: "indexDefinitionToSQL_value ni (tbl_name tbldef) = r" by simp
  show ?case
  proof (cases r)
    case (Inl err)
    with Cons.prems(1) isql have
      "\<exists>oi. obj_get idxdef_fields k old = Some oi \<and> doIndexesMatch_values oi (Found ni) = Inr True
         \<and> changed_indexes_loop tbldef old entries (drops, creates) = Inr (drops', creates')"
      by (auto simp: e split: option.splits sum.splits bool.splits)
    with Cons.IH Cons.prems(2,3) show ?thesis by blast
  next
    case (Inr sql)
    have p: "sql \<noteq> [] \<Longrightarrow> plain sql"
      using isql Inr by (auto intro: plain_indexDefinitionToSQL_value)
    let ?creates = "if sql \<noteq> [] then creates @ [sql] else creates"
    have pc: "list_all plain ?creates" using Cons.prems(3) p by simp
    have pd: "list_all plain (drops @ [''drop index '' @ k])" using Cons.prems(2) by simp
    from Cons.prems(1) isql Inr have
      "changed_indexes_loop tbldef old entries (drops, creates) = Inr (drops', creates')
       \<or> changed_indexes_loop tbldef old entries (drops @ [''drop index '' @ k], ?creates)
            = Inr (drops', creates')
       \<or> changed_indexes_loop tbldef old entries (drops, ?creates) = Inr (drops', creates')"
      by (auto simp: e split: option.splits sum.splits bool.splits)
    then show ?thesis
      using Cons.IH [OF _ Cons.prems(2,3)] Cons.IH [OF _ pd pc] Cons.IH [OF _ Cons.prems(2) pc]
      by blast
  qed
qed

lemma plain_index_changes:
  assumes "index_changes tbldef old new = Inr (drop_idx_sqls, create_idx_sqls)"
  shows "list_all plain drop_idx_sqls \<and> list_all plain create_idx_sqls"
proof -
  have "list_all plain (drop_indexes_loop new (obj_keys idxdef_fields old) [])"
    by (rule plain_drop_indexes_loop) simp
  with assms [unfolded index_changes_def] show ?thesis
    by (rule plain_changed_indexes_loop) simp
qed

lemma not_pragma_apply_changes:
  "issues_only not_pragma
     (let needTableReWrite =
            foreign_key_stage (primary_key_stage needTableReWrite0 old_pk new_pk)
              old_foreign_keys (tbl_foreign_keys tbldef)
      in if needTableReWrite
         then io_bind (executeSQLCommands execute (rewrite_sqls tbldef now old_new_common_colnames))
                (\<lambda>_. io_bind (executeSQLCommands execute [])
                (\<lambda>_. handleDataTransformations execute tbldef))
         else (case index_changes tbldef old_idxdefs_by_name new_idxdefs_by_name of
                 Inl e \<Rightarrow> io_throw e
               | Inr (drop_idx_sqls, create_idx_sqls) \<Rightarrow>
                   io_bind (executeSQLCommands execute drop_idx_sqls)
                     (\<lambda>_. io_bind (if length drop_add_col_sqls > 0
                                   then await_execute execute
                                          (''alter table '' @ tbl_name tbldef @ '' ''
                                             @ join '', '' drop_add_col_sqls)
                                   else io_return ())
                     (\<lambda>_. io_bind (executeSQLCommands execute create_idx_sqls)
                     (\<lambda>_. handleDataTransformations execute tbldef)))))"
proof (cases "foreign_key_stage (primary_key_stage needTableReWrite0 old_pk new_pk)
                old_foreign_keys (tbl_foreign_keys tbldef)")
  case True
  have "issues_only not_pragma
      (io_bind (executeSQLCommands execute (rewrite_sqls tbldef now old_new_common_colnames))
         (\<lambda>_. io_bind (executeSQLCommands execute [])
         (\<lambda>_. handleDataTransformations execute tbldef)))"
    by (intro issues_only_bind issues_only_executeSQLCommands not_pragma_handleDataTransformations)
       (simp_all add: plain_rewrite_sqls)
  with True show ?thesis by (simp add: Let_def)
next
  case False
  show ?thesis
  proof (cases "index_changes tbldef old_idxdefs_by_name new_idxdefs_by_name")
    case (Inl e)
    with False show ?thesis by (simp add: Let_def issues_only_throw)
  next
    case (Inr res)
    obtain drop_idx_sqls create_idx_sqls where res: "res = (drop_idx_sqls, create_idx_sqls)"
      by (cases res)
    from plain_index_changes [OF Inr [unfolded res]]
    have pl: "\<forall>sql \<in> set drop_idx_sqls. not_pragma (Execute sql)"
      "\<forall>sql \<in> set create_idx_sqls. not_pragma (Execute sql)"
      by (simp_all add: list_all_iff)
    have "issues_only not_pragma
        (io_bind (executeSQLCommands execute drop_idx_sqls)
           (\<lambda>_. io_bind (if length drop_add_col_sqls > 0
                         then await_execute execute
                                (''alter table '' @ tbl_name tbldef @ '' ''
                                   @ join '', '' drop_add_col_sqls)
                         else io_return ())
           (\<lambda>_. io_bind (executeSQLCommands execute create_idx_sqls)
           (\<lambda>_. handleDataTransformations execute tbldef))))"
      by (intro issues_only_bind issues_only_if issues_only_executeSQLCommands
            issues_only_execute issues_only_return not_pragma_handleDataTransformations pl)
         simp
    with False Inr res show ?thesis by (simp add: Let_def)
  qed
qed

lemma not_pragma_updateExistingTable:
  "issues_only not_pragma (updateExistingTable select execute now tbldef old_coldefs)"
proof (cases "old_coldefs_loop old_coldefs (empty_object, [])")
  case (Inl e)
  then show ?thesis by (simp add: updateExistingTable_def issues_only_throw)
next
  case (Inr res)
  obtain old_by_name pk_cols where res: "res = (old_by_name, pk_cols)" by (cases res)
  let ?new = "new_coldefs_loop (tbl_columns tbldef) empty_object"
  let ?cmp = "compare_columns_loop (snd (new_indexes_loop (tbl_indexes tbldef) (empty_object, None)))
       old_by_name (obj_entries coldef_fields ?new)
       ([], False, drop_columns_loop ?new (obj_keys coldef_fields old_by_name) [])"
  have sel: "\<forall>sql. not_pragma (Select sql)" by simp
  show ?thesis
  proof (cases ?cmp)
    case cmp: (Inl e)
    show ?thesis
      unfolding updateExistingTable_def Inr res sum.case prod.case Let_def cmp
      by (rule issues_only_throw)
  next
    case cmp: (Inr res2)
    obtain common need0 drop_add where res2: "res2 = (common, need0, drop_add)"
      using prod_cases3 by blast
    show ?thesis
      unfolding updateExistingTable_def Inr res sum.case prod.case cmp res2
        Let_def [of "new_coldefs_loop (tbl_columns tbldef) empty_object"]
        Let_def [of "drop_columns_loop ?new (obj_keys coldef_fields old_by_name) []"]
        Let_def [of "fst (new_indexes_loop (tbl_indexes tbldef) (empty_object, None))"]
        Let_def [of "snd (new_indexes_loop (tbl_indexes tbldef) (empty_object, None))"]
      by (intro issues_only_bind issues_only_case_prod
            issues_only_introspect_indexes [OF sel] issues_only_introspect_foreign_keys [OF sel]
            not_pragma_apply_changes)
  qed
qed

lemma not_pragma_create_or_update:
  "issues_only not_pragma (create_or_update select execute now tbldef)"
  unfolding create_or_update_def
  by (intro issues_only_bind issues_only_select issues_only_if not_pragma_createMissingTable
        not_pragma_updateExistingTable)
     simp

section \<open>Switching the foreign-key enforcement off and on\<close>

lemma disable_foreign_keys_active:
  assumes "foreign_keys_rows select ''pragma foreign_keys'' (store w) = Inr rows"
    and "length rows > 0 \<and> hd rows \<noteq> 0"
    and "execute ''pragma foreign_keys = 0'' (store w) = Inr d"
  shows "disable_foreign_keys select execute w
     = (Inr True, w\<lparr>store := d,
                     issued := issued w @ [Select ''pragma foreign_keys'',
                                           Execute ''pragma foreign_keys = 0'']\<rparr>)"
  using assms
  by (simp add: disable_foreign_keys_def io_bind_def io_return_def await_select_def
        executeSQLCommands_single await_execute_def)

lemma updateSchemaForSingleTable_object:
  "updateSchemaForSingleTable (JSObject tbldef) (JSFunction select) (JSFunction execute) now
     = reconcile_table select execute now tbldef"
  by (simp add: updateSchemaForSingleTable_def)

lemma restore_after:
  assumes body: "issues_only not_pragma body"
    and run: "io_bind body (\<lambda>_. executeSQLCommands execute [''pragma foreign_keys = 1'']) w = (r, w')"
  shows "\<exists>calls. issued w' = issued w @ calls
           \<and> Execute ''pragma foreign_keys = 1'' \<notin> set (butlast calls)
           \<and> (case r of
                 Inl e \<Rightarrow> Execute ''pragma foreign_keys = 1'' \<notin> set calls
                            \<or> (calls \<noteq> [] \<and> last calls = Execute ''pragma foreign_keys = 1''
                                \<and> execute ''pragma foreign_keys = 1'' (store w') = Inl e)
               | Inr u \<Rightarrow> calls \<noteq> [] \<and> last calls = Execute ''pragma foreign_keys = 1'')"
proof -
  obtain r1 w1 where b: "body w = (r1, w1)" by (cases "body w")
  from issues_onlyD [OF body b] obtain cs where cs: "issued w1 = issued w @ cs" "list_all not_pragma cs"
    by blast
  have notin: "Execute ''pragma foreign_keys = 1'' \<notin> set cs"
  proof
    assume "Execute ''pragma foreign_keys = 1'' \<in> set cs"
    with cs(2) have "not_pragma (Execute ''pragma foreign_keys = 1'')"
      unfolding list_all_iff by blast
    then show False by simp
  qed
  then have notin_butlast: "Execute ''pragma foreign_keys = 1'' \<notin> set (butlast cs)"
    by (meson in_set_butlastD)
  show ?thesis
  proof (cases r1)
    case (Inl e)
    with run b have "r = Inl e" "w' = w1" by (simp_all add: io_bind_def)
    with cs notin notin_butlast show ?thesis by auto
  next
    case (Inr x)
    with run b have fin: "executeSQLCommands execute [''pragma foreign_keys = 1''] w1 = (r, w')"
      by (simp add: io_bind_def)
    show ?thesis
    proof (cases "execute ''pragma foreign_keys = 1'' (store w1)")
      case (Inl e)
      with fin have "r = Inl e" "w' = w1\<lparr>issued := issued w1 @ [Execute ''pragma foreign_keys = 1'']\<rparr>"
        by (simp_all add: executeSQLCommands_single await_execute_def)
      with cs notin Inl show ?thesis
        by (intro exI [of _ "cs @ [Execute ''pragma foreign_keys = 1'']"]) (simp add: butlast_append)
    next
      case (Inr d)
      with fin have "r = Inr ()"
        "w' = w1\<lparr>store := d, issued := issued w1 @ [Execute ''pragma foreign_keys = 1'']\<rparr>"
        by (simp_all add: executeSQLCommands_single await_execute_def)
      with cs notin show ?thesis
        by (intro exI [of _ "cs @ [Execute ''pragma foreign_keys = 1'']"]) (simp add: butlast_append)
    qed
  qed
qed

text \<open>
  \<^bold>\<open>C8\<close>. The enforcement of foreign keys is found on and is switched off at the start
  of the run. Then the calls that follow hold \<^verbatim>\<open>pragma foreign_keys = 1\<close> nowhere but
  possibly at the very end. A run that succeeds ends with it. A run that fails either has
  not issued it at all, or has failed in it: a failure of any earlier call leaves the
  enforcement off.
\<close>

theorem foreign_keys_restored_on_success_only:
  assumes rows: "foreign_keys_rows select ''pragma foreign_keys'' (store w) = Inr rows"
    and active: "length rows > 0 \<and> hd rows \<noteq> 0"
    and off: "execute ''pragma foreign_keys = 0'' (store w) = Inr d"
    and run: "updateSchemaForSingleTable (JSObject tbldef) (JSFunction select) (JSFunction execute)
                now w = (r, w')"
  shows "\<exists>calls. issued w' = issued w @ [Select ''pragma foreign_keys'',
                                          Execute ''pragma foreign_keys = 0''] @ calls
           \<and> Execute ''pragma foreign_keys = 1'' \<notin> set (butlast calls)
           \<and> (case r of
                 Inl e \<Rightarrow> Execute ''pragma foreign_keys = 1'' \<notin> set calls
                            \<or> (calls \<noteq> [] \<and> last calls = Execute ''pragma foreign_keys = 1''
                                \<and> execute ''pragma foreign_keys = 1'' (store w') = Inl e)
               | Inr u \<Rightarrow> calls \<noteq> [] \<and> last calls = Execute ''pragma foreign_keys = 1'')"
proof -
  let ?w1 = "w\<lparr>store := d, issued := issued w @ [Select ''pragma foreign_keys'',
                                                  Execute ''pragma foreign_keys = 0'']\<rparr>"
  have dis: "disable_foreign_keys select execute w = (Inr True, ?w1)"
    using rows active off by (rule disable_foreign_keys_active)
  from run have "io_bind (create_or_update select execute now tbldef)
      (\<lambda>_. executeSQLCommands execute [''pragma foreign_keys = 1'']) ?w1 = (r, w')"
    by (simp add: updateSchemaForSingleTable_object reconcile_table_def
          io_bind_def [of "disable_foreign_keys select execute"] dis)
  from restore_after [OF not_pragma_create_or_update this]
  show ?thesis by simp
qed

theorem foreign_keys_restored_on_success_only_witness:
  "updateSchemaForSingleTable (JSObject two_index_table) (JSFunction enforcing_select)
       (JSFunction accepting_execute) 7 \<lparr>store = (), issued = []\<rparr>
     = (Inr (),
        \<lparr>store = (),
         issued =
           [Select ''pragma foreign_keys'', Execute ''pragma foreign_keys = 0'',
            Select (''pragma table_info('' @ [apos] @ ''t'' @ [apos] @ '')''),
            Execute (''create table t ( a TEXT NOT NULL DEFAULT ''
                       @ [apos, apos, CHR '','', newline]
                       @ '' b TEXT NOT NULL DEFAULT '' @ [apos, apos, newline] @ '')''),
            Execute ''create  index t_a on t (a)'',
            Execute ''pragma foreign_keys = 1'']\<rparr>)
   \<and> (\<exists>calls. [Select ''pragma foreign_keys'', Execute ''pragma foreign_keys = 0'',
            Select (''pragma table_info('' @ [apos] @ ''t'' @ [apos] @ '')''),
            Execute (''create table t ( a TEXT NOT NULL DEFAULT ''
                       @ [apos, apos, CHR '','', newline]
                       @ '' b TEXT NOT NULL DEFAULT '' @ [apos, apos, newline] @ '')''),
            Execute ''create  index t_a on t (a)'',
            Execute ''pragma foreign_keys = 1'']
          = [Select ''pragma foreign_keys'', Execute ''pragma foreign_keys = 0''] @ calls
        \<and> Execute ''pragma foreign_keys = 1'' \<notin> set (butlast calls)
        \<and> calls \<noteq> [] \<and> last calls = Execute ''pragma foreign_keys = 1'')
   \<and> updateSchemaForSingleTable (JSObject two_index_table) (JSFunction enforcing_select)
       (JSFunction refusing_create_execute) 7 \<lparr>store = (), issued = []\<rparr>
     = (Inl (CollaboratorFailure ''refused''),
        \<lparr>store = (),
         issued =
           [Select ''pragma foreign_keys'', Execute ''pragma foreign_keys = 0'',
            Select (''pragma table_info('' @ [apos] @ ''t'' @ [apos] @ '')''),
            Execute (''create table t ( a TEXT NOT NULL DEFAULT ''
                       @ [apos, apos, CHR '','', newline]
                       @ '' b TEXT NOT NULL DEFAULT '' @ [apos, apos, newline] @ '')'')]\<rparr>)"
proof -
  let ?w = "\<lparr>store = (), issued = []\<rparr> :: unit world"
  have rows: "foreign_keys_rows enforcing_select ''pragma foreign_keys'' (store ?w) = Inr [1]"
    by (simp add: enforcing_select_def)
  have active: "length [1 :: int] > 0 \<and> hd [1 :: int] \<noteq> 0" by simp
  have off: "accepting_execute ''pragma foreign_keys = 0'' (store ?w) = Inr ()"
    by (simp add: accepting_execute_def)
  have run1: "updateSchemaForSingleTable (JSObject two_index_table) (JSFunction enforcing_select)
       (JSFunction accepting_execute) 7 ?w
     = (Inr (),
        \<lparr>store = (),
         issued =
           [Select ''pragma foreign_keys'', Execute ''pragma foreign_keys = 0'',
            Select (''pragma table_info('' @ [apos] @ ''t'' @ [apos] @ '')''),
            Execute (''create table t ( a TEXT NOT NULL DEFAULT ''
                       @ [apos, apos, CHR '','', newline]
                       @ '' b TEXT NOT NULL DEFAULT '' @ [apos, apos, newline] @ '')''),
            Execute ''create  index t_a on t (a)'',
            Execute ''pragma foreign_keys = 1'']\<rparr>)"
    by code_simp
  have run2: "updateSchemaForSingleTable (JSObject two_index_table) (JSFunction enforcing_select)
       (JSFunction refusing_create_execute) 7 ?w
     = (Inl (CollaboratorFailure ''refused''),
        \<lparr>store = (),
         issued =
           [Select ''pragma foreign_keys'', Execute ''pragma foreign_keys = 0'',
            Select (''pragma table_info('' @ [apos] @ ''t'' @ [apos] @ '')''),
            Execute (''create table t ( a TEXT NOT NULL DEFAULT ''
                       @ [apos, apos, CHR '','', newline]
                       @ '' b TEXT NOT NULL DEFAULT '' @ [apos, apos, newline] @ '')'')]\<rparr>)"
    by code_simp
  from foreign_keys_restored_on_success_only [OF rows active off run1] run1 run2
  show ?thesis by simp
qed

section \<open>A second run after a successful first run\<close>

text \<open>
  \<^bold>\<open>C7\<close>. A second run right after a successful first run is to issue no statement
  but those of the seed directives. The table \<^verbatim>\<open>t\<close> with two declared indexes is
  reconciled three times in succession against a database that is empty at first and
  keeps the statements executed on it. The first run succeeds, having created the table
  and the index \<^verbatim>\<open>t_a\<close> only: the statement for \<^verbatim>\<open>t_b\<close> is the second of its list,
  which \<open>executeSQLCommands\<close> skips. The second run starts from the database the first
  has left, finds the index \<^verbatim>\<open>t_b\<close> missing and issues its \<^verbatim>\<open>create index\<close>. The
  third run issues queries only.
\<close>

theorem second_run_creates_the_skipped_index:
  "updateSchemaForSingleTable (JSObject two_index_table)
        (JSFunction recorded_select) (JSFunction recording_execute) 7 \<lparr>store = [], issued = []\<rparr>
     = (Inr (),
        \<lparr>store =
           [''create table t ( a TEXT NOT NULL DEFAULT '' @ [apos, apos, CHR '','', newline]
              @ '' b TEXT NOT NULL DEFAULT '' @ [apos, apos, newline] @ '')'',
            ''create  index t_a on t (a)''],
         issued =
           [Select ''pragma foreign_keys'',
            Select (''pragma table_info('' @ [apos] @ ''t'' @ [apos] @ '')''),
            Execute (''create table t ( a TEXT NOT NULL DEFAULT ''
                       @ [apos, apos, CHR '','', newline]
                       @ '' b TEXT NOT NULL DEFAULT '' @ [apos, apos, newline] @ '')''),
            Execute ''create  index t_a on t (a)'']\<rparr>)
   \<and> updateSchemaForSingleTable (JSObject two_index_table)
        (JSFunction recorded_select) (JSFunction recording_execute) 8
        \<lparr>store =
           [''create table t ( a TEXT NOT NULL DEFAULT '' @ [apos, apos, CHR '','', newline]
              @ '' b TEXT NOT NULL DEFAULT '' @ [apos, apos, newline] @ '')'',
            ''create  index t_a on t (a)''],
         issued = []\<rparr>
     = (Inr (),
        \<lparr>store =
           [''create table t ( a TEXT NOT NULL DEFAULT '' @ [apos, apos, CHR '','', newline]
              @ '' b TEXT NOT NULL DEFAULT '' @ [apos, apos, newline] @ '')'',
            ''create  index t_a on t (a)'',
            ''create  index t_b on t (b)''],
         issued =
           [Select ''pragma foreign_keys'',
            Select (''pragma table_info('' @ [apos] @ ''t'' @ [apos] @ '')''),
            Select (''pragma index_list('' @ [apos] @ ''t'' @ [apos] @ '')''),
            Select (''pragma index_info('' @ [apos] @ ''t_a'' @ [apos] @ '')''),
            Select (''pragma foreign_key_list('' @ [apos] @ ''t'' @ [apos] @ '')''),
            Execute ''create  index t_b on t (b)'']\<rparr>)
   \<and> updateSchemaForSingleTable (JSObject two_index_table)
        (JSFunction recorded_select) (JSFunction recording_execute) 9
        \<lparr>store =
           [''create table t ( a TEXT NOT NULL DEFAULT '' @ [apos, apos, CHR '','', newline]
              @ '' b TEXT NOT NULL DEFAULT '' @ [apos, apos, newline] @ '')'',
            ''create  index t_a on t (a)'',
            ''create  index t_b on t (b)''],
         issued = []\<rparr>
     = (Inr (),
        \<lparr>store =
           [''create table t ( a TEXT NOT NULL DEFAULT '' @ [apos, apos, CHR '','', newline]
              @ '' b TEXT NOT NULL DEFAULT '' @ [apos, apos, newline] @ '')'',
            ''create  index t_a on t (a)'',
            ''create  index t_b on t (b)''],
         issued =
           [Select ''pragma foreign_keys'',
            Select (''pragma table_info('' @ [apos] @ ''t'' @ [apos] @ '')''),
            Select (''pragma index_list('' @ [apos] @ ''t'' @ [apos] @ '')''),
            Select (''pragma index_info('' @ [apos] @ ''t_a'' @ [apos] @ '')''),
            Select (''pragma index_info('' @ [apos] @ ''t_b'' @ [apos] @ '')''),
            Select (''pragma foreign_key_list('' @ [apos] @ ''t'' @ [apos] @ '')'')]\<rparr>)"
  by code_simp

theorem second_run_creates_the_skipped_index_witness:
  "Execute ''create  index t_b on t (b)''
     \<in> set (issued (snd (updateSchemaForSingleTable (JSObject two_index_table)
        (JSFunction recorded_select) (JSFunction recording_execute) 8
        \<lparr>store = store (snd (updateSchemaForSingleTable (JSObject two_index_table)
                    (JSFunction recorded_select) (JSFunction recording_execute) 7
                    \<lparr>store = [], issued = []\<rparr>)),
         issued = []\<rparr>)))"
  using second_run_creates_the_skipped_index by simp

end
